theory Spec2Isabelle
  imports Complex_Main "HOL-Library.Multiset"
begin

section \<open>JavaScript numbers\<close>

text \<open>
  Prices, discounts, ratings and percentages are JavaScript Numbers, that is IEEE 754
  doubles. A finite double is a rational number, and every arithmetic operator returns
  the exact result rounded to the nearest double, ties to the even significand. The
  model keeps the exact rational value of each double and rounds after every operation
  with \<open>fl\<close>: the value is scaled so that its significand has 53 bits, rounded to an
  integer and scaled back. It covers the normal range of doubles (no overflow to
  Infinity, no subnormal results, no NaN), which prices, discounts and lecture counts
  stay in.
\<close>

definition roundTiesToEven :: "rat \<Rightarrow> int" where
  "roundTiesToEven y =
     (let f = \<lfloor>y\<rfloor>; r = y - of_int f
      in if r < 1 / 2 then f else if 1 / 2 < r then f + 1 else if even f then f else f + 1)"

text \<open>The binary exponent of a positive value: \<open>2 ^ e \<le> x < 2 ^ (e + 1)\<close>.\<close>

function binade_up :: "rat \<Rightarrow> nat" where
  "binade_up x = (if x < 2 then 0 else Suc (binade_up (x / 2)))"
  by pat_completeness auto
termination
proof (relation "measure (\<lambda>x. nat \<lfloor>x\<rfloor>)")
  show "wf (measure (\<lambda>x::rat. nat \<lfloor>x\<rfloor>))" by simp
next
  fix x :: rat
  assume "\<not> x < 2"
  then have "2 \<le> x" by simp
  then have "\<lfloor>x / 2\<rfloor> < \<lfloor>x\<rfloor>" "0 < \<lfloor>x\<rfloor>"
    by (simp_all add: floor_less_iff less_floor_iff) linarith+
  then show "(x / 2, x) \<in> measure (\<lambda>x. nat \<lfloor>x\<rfloor>)" by simp
qed

function binade_down :: "rat \<Rightarrow> nat" where
  "binade_down x = (if x \<le> 0 \<or> 1 \<le> x then 0 else Suc (binade_down (2 * x)))"
  by pat_completeness auto
termination
proof (relation "measure (\<lambda>x. nat \<lceil>1 / x\<rceil>)")
  show "wf (measure (\<lambda>x::rat. nat \<lceil>1 / x\<rceil>))" by simp
next
  fix x :: rat
  assume "\<not> (x \<le> 0 \<or> 1 \<le> x)"
  then have x: "0 < x" "x < 1" by simp_all
  then have "1 < 1 / x" by simp
  then have c: "2 \<le> \<lceil>1 / x\<rceil>" by linarith
  have "1 / (2 * x) = (1 / x) / 2" by simp
  also have "\<dots> \<le> of_int \<lceil>1 / x\<rceil> / 2" by (simp add: divide_right_mono)
  also have "\<dots> \<le> of_int (\<lceil>1 / x\<rceil> - 1)" using c by simp
  finally have "1 / (2 * x) \<le> of_int (\<lceil>1 / x\<rceil> - 1)" .
  then have "\<lceil>1 / (2 * x)\<rceil> \<le> \<lceil>1 / x\<rceil> - 1" by (rule ceiling_le)
  with c have "nat \<lceil>1 / (2 * x)\<rceil> < nat \<lceil>1 / x\<rceil>" by linarith
  then show "(2 * x, x) \<in> measure (\<lambda>x. nat \<lceil>1 / x\<rceil>)" by (simp only: in_measure)
qed

declare binade_up.simps [simp del] binade_down.simps [simp del]

definition exponent :: "rat \<Rightarrow> int" where
  "exponent x = (if 1 \<le> x then int (binade_up x) else - int (binade_down x))"

definition fl :: "rat \<Rightarrow> rat" where
  "fl x =
     (if x = 0 then 0
      else let u = 2 powi (exponent \<bar>x\<bar> - 52)
           in sgn x * of_int (roundTiesToEven (\<bar>x\<bar> / u)) * u)"

text \<open>The operators \<open>*\<close>, \<open>/\<close>, \<open>-\<close> and \<open>+\<close> on Numbers (the divisor is never zero
  where the controllers divide).\<close>

definition js_mul :: "rat \<Rightarrow> rat \<Rightarrow> rat" where
  "js_mul a b = fl (a * b)"

definition js_div :: "rat \<Rightarrow> rat \<Rightarrow> rat" where
  "js_div a b = fl (a / b)"

definition js_sub :: "rat \<Rightarrow> rat \<Rightarrow> rat" where
  "js_sub a b = fl (a - b)"

definition js_add :: "rat \<Rightarrow> rat \<Rightarrow> rat" where
  "js_add a b = fl (a + b)"

text \<open>\<open>Math.round\<close> rounds to the nearest integer, a tie towards plus infinity;
  \<open>Math.floor\<close> is the floor.\<close>

definition Math_round :: "rat \<Rightarrow> int" where
  "Math_round x = \<lfloor>x + 1 / 2\<rfloor>"

definition Math_floor :: "rat \<Rightarrow> int" where
  "Math_floor x = \<lfloor>x\<rfloor>"

text \<open>
  \<open>x.toFixed(2)\<close> is, for \<open>x\<close> below \<open>10 ^ 21\<close> in magnitude, the string \<open>D.CC\<close> of the
  integer \<open>n\<close> for which \<open>n / 100\<close> is closest to the exact value of \<open>x\<close>, the larger
  \<open>n\<close> on a tie, after a minus sign when \<open>x < 0\<close>. The string is represented by its sign and its number of hundredths;
  \<open>fixed2_string\<close> writes it out. Reading it back as a Number (\<open>ToNumber\<close>) gives the
  double nearest to the decimal.
\<close>

datatype fixed2 = Fixed2 (negative: bool) (hundredths: nat)

definition toFixed2 :: "rat \<Rightarrow> fixed2" where
  "toFixed2 x =
     (if x < 0 then Fixed2 True (nat \<lfloor>- x * 100 + 1 / 2\<rfloor>)
      else Fixed2 False (nat \<lfloor>x * 100 + 1 / 2\<rfloor>))"

text \<open>The number such a string denotes, and the double it is read back as.\<close>

definition fixed2_value :: "fixed2 \<Rightarrow> rat" where
  "fixed2_value a = (if negative a then - (of_nat (hundredths a) / 100) else of_nat (hundredths a) / 100)"

definition toNumber :: "fixed2 \<Rightarrow> rat" where
  "toNumber a =
     (if negative a then - fl (of_nat (hundredths a) / 100)
      else fl (of_nat (hundredths a) / 100))"

definition digit :: "nat \<Rightarrow> char" where
  "digit d = ''0123456789'' ! d"

fun digits :: "nat \<Rightarrow> string" where
  "digits n = (if n < 10 then [digit n] else digits (n div 10) @ [digit (n mod 10)])"

declare digits.simps [simp del]

definition fixed2_string :: "fixed2 \<Rightarrow> string" where
  "fixed2_string a =
     (if negative a then ''-'' else '''') @ digits (hundredths a div 100) @ ''.''
       @ [digit (hundredths a div 10 mod 10), digit (hundredths a mod 10)]"

section \<open>Documents\<close>

text \<open>The course document: chapters of lectures, ratings, enrolled students. A
  document's \<open>_id\<close> is the key it is stored under. The orders of chapters and lectures
  are Numbers, like prices and durations. A string is the list of the bytes of its UTF-8
  encoding.\<close>

record lecture =
  lectureId :: string
  lectureTitle :: string
  lectureDuration :: rat
  lectureUrl :: string
  isPreviewFree :: bool
  lectureOrder :: rat

record course_chapter =
  chapterId :: string
  chapterTitle :: string
  chapterOrder :: rat
  chapterContent :: "lecture list"

record course_rating =
  rating_userId :: string
  rating :: rat

text \<open>\<open>enrolledStudents\<close> holds references to users; the webhook handler pushes whatever
  \<open>User.findById\<close> returned, \<open>null\<close> (\<open>None\<close>) included.\<close>

record course =
  courseTitle :: string
  coursePrice :: rat
  discount :: rat
  educator :: string
  courseContent :: "course_chapter list"
  courseRatings :: "course_rating list"
  enrolledStudents :: "string option list"

record user =
  user_name :: string
  email :: string
  enrolledCourses :: "string list"

datatype purchase_status = Pending | Completed | Failed

record purchase =
  purchase_courseId :: string
  purchase_userId :: string
  amount :: fixed2
  status :: purchase_status

text \<open>The \<open>CourseProgress\<close> document of the user controller (field
  \<open>lectureCompleted\<close>) and the \<open>Progress\<close> / \<open>CourseProgress\<close> documents of
  \<open>models/CourseProgress.js\<close>; both are unique on the pair (userId, courseId), which is
  their key here. A \<open>Date\<close> is a number of milliseconds.\<close>

record course_progress =
  lectureCompleted :: "string list"

type_synonym date = nat

record progress =
  completedLectures :: "string list"
  lastAccessed :: date
  completionPercentage :: int

section \<open>The document store and the payment processor\<close>

datatype db_op =
    Saved_course string
  | Saved_user string
  | Created_purchase nat
  | Saved_purchase nat
  | Created_courseProgress "string \<times> string"
  | Saved_courseProgress "string \<times> string"
  | Created_progress "string \<times> string"
  | Updated_progress "string \<times> string"

record checkout_request =
  success_url :: string
  cancel_url :: string
  currency :: string
  product_name :: string
  unit_amount :: rat
  quantity :: nat
  mode :: string
  metadata_purchaseId :: nat

text \<open>The collections, the log of writes in the order they were issued, the checkout
  sessions requested from Stripe and the lines written to the console. A purchase's
  \<open>_id\<close> is its position in the collection.\<close>

record store =
  users :: "string \<rightharpoonup> user"
  courses :: "string \<rightharpoonup> course"
  purchases :: "purchase list"
  courseProgress :: "string \<times> string \<rightharpoonup> course_progress"
  progressDocs :: "string \<times> string \<rightharpoonup> progress"
  oplog :: "db_op list"
  checkout_requests :: "checkout_request list"
  console :: "string list"

record event =
  event_type :: string
  payment_intent_id :: string

text \<open>Stripe is an external collaborator: \<open>webhooks.constructEvent\<close> verifies the
  signature and throws (\<open>Inl\<close> the error message) or returns the event,
  \<open>checkout.sessions.list\<close> returns the purchase ids in the metadata of the sessions of a
  payment intent, \<open>checkout.sessions.create\<close> throws or returns the session url.\<close>

record stripe =
  constructEvent :: "string \<Rightarrow> string \<Rightarrow> string + event"
  sessions_list :: "string \<Rightarrow> nat list"
  sessions_create :: "checkout_request \<Rightarrow> string + string"

text \<open>What a handler answers. \<open>Uncaught\<close> is an exception that leaves the handler (a
  property read on \<open>null\<close> or \<open>undefined\<close> outside any \<open>try\<close>); a caught one is
  answered with \<open>Json_failure\<close> and the error's message.\<close>

datatype response =
    Json_message string
  | Json_failure string
  | Json_session_url string
  | Json_courseData course
  | Json_progressData "course_progress option"
  | Json_progress "string list" int "date option"
  | Json_marked string "string list" int
  | Json_lecture string lecture
  | Json_received
  | Status_send nat string
  | Uncaught string

definition Purchase_findById :: "store \<Rightarrow> nat \<Rightarrow> purchase option" where
  "Purchase_findById st i = (if i < length (purchases st) then Some (purchases st ! i) else None)"

definition Purchase_save :: "nat \<Rightarrow> purchase \<Rightarrow> store \<Rightarrow> store" where
  "Purchase_save i p st = st\<lparr>purchases := (purchases st)[i := p], oplog := oplog st @ [Saved_purchase i]\<rparr>"

definition Purchase_create :: "purchase \<Rightarrow> store \<Rightarrow> nat \<times> store" where
  "Purchase_create p st =
     (length (purchases st),
      st\<lparr>purchases := purchases st @ [p], oplog := oplog st @ [Created_purchase (length (purchases st))]\<rparr>)"

definition Course_save :: "string \<Rightarrow> course \<Rightarrow> store \<Rightarrow> store" where
  "Course_save i c st = st\<lparr>courses := (courses st)(i \<mapsto> c), oplog := oplog st @ [Saved_course i]\<rparr>"

definition User_save :: "string \<Rightarrow> user \<Rightarrow> store \<Rightarrow> store" where
  "User_save i u st = st\<lparr>users := (users st)(i \<mapsto> u), oplog := oplog st @ [Saved_user i]\<rparr>"

section \<open>Payment controller\<close>

text \<open>\<open>stripeWebhooks\<close>, the case \<open>payment_intent.succeeded\<close>: the purchase named by the
  first session's metadata, its user and its course are fetched; the user is pushed on
  the course's \<open>enrolledStudents\<close>, the course on the user's \<open>enrolledCourses\<close>, the status
  is set to \<open>completed\<close>, each followed by its \<open>save\<close>. Nothing looks at the status the
  purchase had.\<close>

definition payment_succeeded :: "stripe \<Rightarrow> event \<Rightarrow> store \<Rightarrow> response \<times> store" where
  "payment_succeeded ext ev st =
     (case sessions_list ext (payment_intent_id ev) of
        [] \<Rightarrow> (Uncaught ''TypeError: metadata of undefined'', st)
      | purchaseId # _ \<Rightarrow>
          (case Purchase_findById st purchaseId of
             None \<Rightarrow> (Uncaught ''TypeError: userId of null'', st)
           | Some purchaseData \<Rightarrow>
               (let userData = users st (purchase_userId purchaseData)
                in case courses st (purchase_courseId purchaseData) of
                     None \<Rightarrow> (Uncaught ''TypeError: enrolledStudents of null'', st)
                   | Some courseData \<Rightarrow>
                       (let st1 = Course_save (purchase_courseId purchaseData)
                                    (courseData\<lparr>enrolledStudents := enrolledStudents courseData
                                       @ [map_option (\<lambda>_. purchase_userId purchaseData) userData]\<rparr>) st
                        in case userData of
                             None \<Rightarrow> (Uncaught ''TypeError: enrolledCourses of null'', st1)
                           | Some u \<Rightarrow>
                               (let st2 = User_save (purchase_userId purchaseData)
                                            (u\<lparr>enrolledCourses := enrolledCourses u
                                               @ [purchase_courseId purchaseData]\<rparr>) st1;
                                    st3 = Purchase_save purchaseId (purchaseData\<lparr>status := Completed\<rparr>) st2
                                in (Json_received, st3))))))"

definition payment_failed :: "stripe \<Rightarrow> event \<Rightarrow> store \<Rightarrow> response \<times> store" where
  "payment_failed ext ev st =
     (case sessions_list ext (payment_intent_id ev) of
        [] \<Rightarrow> (Uncaught ''TypeError: metadata of undefined'', st)
      | purchaseId # _ \<Rightarrow>
          (case Purchase_findById st purchaseId of
             None \<Rightarrow> (Uncaught ''TypeError: status of null'', st)
           | Some purchaseData \<Rightarrow>
               (Json_received, Purchase_save purchaseId (purchaseData\<lparr>status := Failed\<rparr>) st)))"

text \<open>The handler: a signature that does not verify is answered with status 400
  before anything is read or written.\<close>

definition stripeWebhooks :: "stripe \<Rightarrow> string \<Rightarrow> string \<Rightarrow> store \<Rightarrow> response \<times> store" where
  "stripeWebhooks ext body sig st =
     (case constructEvent ext body sig of
        Inl err \<Rightarrow> (Status_send 400 (''Webhook Error: '' @ err), st)
      | Inr ev \<Rightarrow>
          if event_type ev = ''payment_intent.succeeded'' then payment_succeeded ext ev st
          else if event_type ev = ''payment_intent.payment_failed'' then payment_failed ext ev st
          else (Json_received, st\<lparr>console := console st @ [''Unhandled event type '' @ event_type ev]\<rparr>))"

text \<open>\<open>purchaseCourse\<close>: the amount is \<open>(coursePrice - discount * coursePrice / 100).toFixed(2)\<close>,
  the purchase is created \<open>pending\<close>, and a checkout session is requested whose line item
  costs \<open>Math.floor(newPurchase.amount) * 100\<close>. An error thrown by Stripe is caught and
  answered as a failure; the purchase stays as created.\<close>

definition purchaseCourse :: "stripe \<Rightarrow> string \<Rightarrow> string \<Rightarrow> string \<Rightarrow> store \<Rightarrow> response \<times> store" where
  "purchaseCourse ext userId courseId origin st =
     (case (courses st courseId, users st userId) of
        (Some courseData, Some userData) \<Rightarrow>
          (let purchaseData =
                 \<lparr>purchase_courseId = courseId, purchase_userId = userId,
                  amount = toFixed2 (js_sub (coursePrice courseData)
                             (js_div (js_mul (discount courseData) (coursePrice courseData)) 100)),
                  status = Pending\<rparr>;
               (newId, st1) = Purchase_create purchaseData st;
               request =
                 \<lparr>success_url = origin @ ''/loading/my-enrollments'', cancel_url = origin @ ''/'',
                  currency = ''usd'', product_name = courseTitle courseData,
                  unit_amount = js_mul (of_int (Math_floor (toNumber (amount purchaseData)))) 100,
                  quantity = 1, mode = ''payment'', metadata_purchaseId = newId\<rparr>;
               st2 = st1\<lparr>checkout_requests := checkout_requests st1 @ [request]\<rparr>
           in case sessions_create ext request of
                Inl err \<Rightarrow> (Json_failure err, st2)
              | Inr url \<Rightarrow> (Json_session_url url, st2))
      | _ \<Rightarrow> (Json_failure ''Data Not Found'', st))"

section \<open>User controller\<close>

text \<open>\<open>updateUserCourseProgress\<close> and \<open>getUserCourseProgress\<close> of the user controller
  (the learning controller has the same two functions).\<close>

definition updateUserCourseProgress :: "string \<Rightarrow> string \<Rightarrow> string \<Rightarrow> store \<Rightarrow> response \<times> store" where
  "updateUserCourseProgress userId courseId lecId st =
     (case courseProgress st (userId, courseId) of
        Some progressData \<Rightarrow>
          if lecId \<in> set (lectureCompleted progressData)
          then (Json_message ''Lecture Already Completed'', st)
          else (Json_message ''Progress Updated'',
                st\<lparr>courseProgress := (courseProgress st)((userId, courseId) \<mapsto>
                      progressData\<lparr>lectureCompleted := lectureCompleted progressData @ [lecId]\<rparr>),
                   oplog := oplog st @ [Saved_courseProgress (userId, courseId)]\<rparr>)
      | None \<Rightarrow>
          (Json_message ''Progress Updated'',
           st\<lparr>courseProgress := (courseProgress st)((userId, courseId) \<mapsto> \<lparr>lectureCompleted = [lecId]\<rparr>),
              oplog := oplog st @ [Created_courseProgress (userId, courseId)]\<rparr>))"

definition getUserCourseProgress :: "string \<Rightarrow> string \<Rightarrow> store \<Rightarrow> response \<times> store" where
  "getUserCourseProgress userId courseId st = (Json_progressData (courseProgress st (userId, courseId)), st)"

text \<open>\<open>Array.prototype.findIndex\<close>; \<open>None\<close> is its \<open>-1\<close>.\<close>

fun findIndex :: "('a \<Rightarrow> bool) \<Rightarrow> 'a list \<Rightarrow> nat option" where
  "findIndex P [] = None"
| "findIndex P (x # xs) = (if P x then Some 0 else map_option Suc (findIndex P xs))"

text \<open>\<open>addUserRating\<close>. The first test rejects a falsy course id, user id or rating (the
  empty string, the number 0) and a rating below 1 or above 5.\<close>

definition addUserRating :: "string \<Rightarrow> string \<Rightarrow> rat \<Rightarrow> store \<Rightarrow> response \<times> store" where
  "addUserRating userId courseId r st =
     (if courseId = [] \<or> userId = [] \<or> r = 0 \<or> r < 1 \<or> 5 < r
      then (Json_failure ''InValid Details'', st)
      else case courses st courseId of
             None \<Rightarrow> (Json_failure ''Course not found.'', st)
           | Some course \<Rightarrow>
               (case users st userId of
                  None \<Rightarrow> (Json_failure ''User has not purchased this course.'', st)
                | Some user \<Rightarrow>
                    if courseId \<notin> set (enrolledCourses user)
                    then (Json_failure ''User has not purchased this course.'', st)
                    else (let ratings =
                                (case findIndex (\<lambda>x. rating_userId x = userId) (courseRatings course) of
                                   Some existingRatingIndex \<Rightarrow>
                                     (courseRatings course)[existingRatingIndex :=
                                        (courseRatings course ! existingRatingIndex)\<lparr>rating := r\<rparr>]
                                 | None \<Rightarrow> courseRatings course @ [\<lparr>rating_userId = userId, rating = r\<rparr>])
                          in (Json_message ''Rating added'',
                              Course_save courseId (course\<lparr>courseRatings := ratings\<rparr>) st))))"

section \<open>Progress model and progress controller\<close>

definition totalLectures :: "course \<Rightarrow> nat" where
  "totalLectures course =
     foldl (\<lambda>total chapter. total + length (chapterContent chapter)) 0 (courseContent course)"

text \<open>\<open>calculateCompletionPercentage\<close> of the \<open>Progress\<close> schema: the course is read from
  the store at the time of the call.\<close>

definition calculateCompletionPercentage :: "store \<Rightarrow> string \<Rightarrow> progress \<Rightarrow> int" where
  "calculateCompletionPercentage st courseId this =
     (case courses st courseId of
        None \<Rightarrow> 0
      | Some course \<Rightarrow>
          if totalLectures course = 0 then 0
          else Math_round (js_mul (js_div (of_nat (length (completedLectures this)))
                                     (of_nat (totalLectures course))) 100))"

text \<open>The same method of the \<open>CourseProgress\<close> schema also stores the result in the
  document, and that schema has \<open>markLectureAsComplete\<close>, \<open>isLectureCompleted\<close> and
  \<open>resetProgress\<close>.\<close>

definition CourseProgress_calculateCompletionPercentage :: "store \<Rightarrow> string \<Rightarrow> progress \<Rightarrow> int \<times> progress" where
  "CourseProgress_calculateCompletionPercentage st courseId this =
     (case courses st courseId of
        None \<Rightarrow> (0, this)
      | Some course \<Rightarrow>
          if totalLectures course = 0 then (0, this)
          else (let p = Math_round (js_mul (js_div (of_nat (length (completedLectures this)))
                                              (of_nat (totalLectures course))) 100)
                in (p, this\<lparr>completionPercentage := p\<rparr>)))"

definition markLectureAsComplete :: "date \<Rightarrow> string \<Rightarrow> progress \<Rightarrow> bool \<times> progress" where
  "markLectureAsComplete now lecId this =
     (if lecId \<notin> set (completedLectures this)
      then (True, this\<lparr>completedLectures := completedLectures this @ [lecId], lastAccessed := now\<rparr>)
      else (False, this))"

definition isLectureCompleted :: "string \<Rightarrow> progress \<Rightarrow> bool" where
  "isLectureCompleted lecId this = (lecId \<in> set (completedLectures this))"

definition resetProgress :: "date \<Rightarrow> progress \<Rightarrow> progress" where
  "resetProgress now this = this\<lparr>completedLectures := [], completionPercentage := 0, lastAccessed := now\<rparr>"

text \<open>The progress controller behind the routes \<open>/mark-complete\<close> and \<open>/user-progress\<close>.\<close>

definition progressController_markLectureAsComplete ::
  "date \<Rightarrow> string \<Rightarrow> string \<Rightarrow> string \<Rightarrow> store \<Rightarrow> response \<times> store" where
  "progressController_markLectureAsComplete now userId courseId lecId st =
     (let k = (userId, courseId);
          (progress, st1) =
            (case progressDocs st k of
               None \<Rightarrow>
                 (let p = \<lparr>completedLectures = [lecId], lastAccessed = now, completionPercentage = 0\<rparr>
                  in (p, st\<lparr>progressDocs := (progressDocs st)(k \<mapsto> p),
                            oplog := oplog st @ [Created_progress k]\<rparr>))
             | Some p \<Rightarrow>
                 if lecId \<notin> set (completedLectures p)
                 then (let p' = p\<lparr>completedLectures := completedLectures p @ [lecId], lastAccessed := now\<rparr>
                       in (p', st\<lparr>progressDocs := (progressDocs st)(k \<mapsto> p'),
                                  oplog := oplog st @ [Updated_progress k]\<rparr>))
                 else (p, st));
          percentage = calculateCompletionPercentage st1 courseId progress;
          progress' = progress\<lparr>completionPercentage := percentage\<rparr>;
          st2 = st1\<lparr>progressDocs := (progressDocs st1)(k \<mapsto> progress'),
                    oplog := oplog st1 @ [Updated_progress k]\<rparr>
      in (Json_marked ''Lecture marked as complete'' (completedLectures progress') percentage, st2))"

definition progressController_getUserCourseProgress :: "string \<Rightarrow> string \<Rightarrow> store \<Rightarrow> response \<times> store" where
  "progressController_getUserCourseProgress userId courseId st =
     (case progressDocs st (userId, courseId) of
        None \<Rightarrow> (Json_progress [] 0 None, st)
      | Some progress \<Rightarrow>
          (Json_progress (completedLectures progress)
             (calculateCompletionPercentage st courseId progress) (Some (lastAccessed progress)), st))"

section \<open>Content controller\<close>

text \<open>The message of the \<open>TypeError\<close> that Node (version 16 and later) throws when
  a property is read on \<open>null\<close>.\<close>

definition null_property_message :: "string \<Rightarrow> string" where
  "null_property_message property =
     ''Cannot read properties of null (reading '' @ [CHR 0x27] @ property @ [CHR 0x27] @ '')''"

text \<open>\<open>getCourseById\<close>: the url of a lecture that is not a free preview is blanked unless
  the request is marked enrolled (\<open>req.isEnrolled || false\<close>); chapters, then the lectures
  of each chapter, are sorted by their order (\<open>Array.prototype.sort\<close> is stable, as
  \<open>sort_key\<close> is; the comparator \<open>a - b\<close> has the sign of the exact difference). The
  changes are made on the fetched document and not saved. A course that is not found
  makes \<open>courseData.courseContent\<close> throw inside the \<open>try\<close>, and the error's message is
  answered.\<close>

definition getCourseById :: "bool option \<Rightarrow> string \<Rightarrow> store \<Rightarrow> response \<times> store" where
  "getCourseById req_isEnrolled cid st =
     (case courses st cid of
        None \<Rightarrow> (Json_failure (null_property_message ''courseContent''), st)
      | Some courseData \<Rightarrow>
          (let isEnrolled = (case req_isEnrolled of Some b \<Rightarrow> b | None \<Rightarrow> False);
               blanked = map (\<lambda>chapter. chapter\<lparr>chapterContent :=
                                map (\<lambda>lecture. if \<not> isPreviewFree lecture \<and> \<not> isEnrolled
                                                then lecture\<lparr>lectureUrl := []\<rparr> else lecture)
                                    (chapterContent chapter)\<rparr>)
                             (courseContent courseData);
               sorted = sort_key chapterOrder blanked;
               sorted' = map (\<lambda>chapter. chapter\<lparr>chapterContent :=
                                sort_key lectureOrder (chapterContent chapter)\<rparr>) sorted
           in (Json_courseData (courseData\<lparr>courseContent := sorted'\<rparr>), st)))"

text \<open>\<open>getCourseWithPreview\<close> of the learning controller (\<open>getCourseId\<close> of the course
  controller is the same function): no enrolment is looked at and nothing is sorted.\<close>

definition getCourseWithPreview :: "string \<Rightarrow> store \<Rightarrow> response \<times> store" where
  "getCourseWithPreview cid st =
     (case courses st cid of
        None \<Rightarrow> (Json_failure (null_property_message ''courseContent''), st)
      | Some courseData \<Rightarrow>
          (Json_courseData (courseData\<lparr>courseContent :=
             map (\<lambda>chapter. chapter\<lparr>chapterContent :=
                    map (\<lambda>lecture. if \<not> isPreviewFree lecture
                                    then lecture\<lparr>lectureUrl := []\<rparr> else lecture)
                        (chapterContent chapter)\<rparr>)
                 (courseContent courseData)\<rparr>), st))"

text \<open>\<open>isValidVideoUrl\<close> tests the url against
  \<^verbatim>\<open>/^(https?:\/\/)?(www\.)?(youtube\.com|youtu\.be)\/.+$/\<close> and
  \<^verbatim>\<open>/^(https?:\/\/)?(www\.)?(vimeo\.com)\/.+$/\<close>: an optional scheme, an optional
  \<open>www.\<close>, one of the hosts, a slash, and then up to the end of the string at least one
  character, none of them a line terminator: the dot matches no line feed (U+000A), no
  carriage return (U+000D), no line separator (U+2028) and no paragraph separator
  (U+2029). In UTF-8 these are the byte 0A, the byte 0D and the byte sequences E2 80 A8
  and E2 80 A9, which occur in the encoding of a string only where the string has that
  character. \<open>line_terminator\<close> tells whether a string starts with one of them.\<close>

fun strip_prefix :: "string \<Rightarrow> string \<Rightarrow> string option" where
  "strip_prefix [] s = Some s"
| "strip_prefix (p # ps) [] = None"
| "strip_prefix (p # ps) (c # cs) = (if p = c then strip_prefix ps cs else None)"

fun line_terminator :: "string \<Rightarrow> bool" where
  "line_terminator [] = False"
| "line_terminator (c # cs) =
     (c = CHR 0x0A \<or> c = CHR 0x0D
      \<or> (c = CHR 0xE2 \<and> (take 2 cs = [CHR 0x80, CHR 0xA8] \<or> take 2 cs = [CHR 0x80, CHR 0xA9])))"

fun has_line_terminator :: "string \<Rightarrow> bool" where
  "has_line_terminator [] = False"
| "has_line_terminator (c # cs) = (line_terminator (c # cs) \<or> has_line_terminator cs)"

definition host_regex_test :: "string list \<Rightarrow> string \<Rightarrow> bool" where
  "host_regex_test hosts url =
     list_ex (\<lambda>scheme. list_ex (\<lambda>www. list_ex (\<lambda>host.
         case strip_prefix (scheme @ www @ host @ ''/'') url of
           None \<Rightarrow> False
         | Some rest \<Rightarrow> rest \<noteq> [] \<and> \<not> has_line_terminator rest)
       hosts) [[], ''www.'']) [[], ''http://'', ''https://'']"

definition isValidVideoUrl :: "string \<Rightarrow> bool" where
  "isValidVideoUrl url =
     (host_regex_test [''youtube.com'', ''youtu.be''] url \<or> host_regex_test [''vimeo.com''] url)"

text \<open>The body of an \<open>addLecture\<close> request; \<open>isPreviewFree\<close> may be missing.\<close>

record lecture_data =
  data_lectureId :: string
  data_lectureTitle :: string
  data_lectureDuration :: rat
  data_lectureUrl :: string
  data_isPreviewFree :: "bool option"

text \<open>\<open>addLecture\<close>: the course, its educator, the chapter and the url are checked in
  this order; \<open>maxOrder\<close> starts at 0 and becomes \<open>Math.max\<close> of the lecture orders when
  the chapter has lectures; the new lecture's order is \<open>maxOrder + 1\<close>, a sum of
  Numbers.\<close>

definition addLecture :: "string \<Rightarrow> string \<Rightarrow> string \<Rightarrow> lecture_data \<Rightarrow> store \<Rightarrow> response \<times> store" where
  "addLecture educatorId courseId chapId lectureData st =
     (case courses st courseId of
        None \<Rightarrow> (Json_failure ''Course not found'', st)
      | Some course \<Rightarrow>
          if educator course \<noteq> educatorId then (Json_failure ''Unauthorized'', st)
          else (case findIndex (\<lambda>chapter. chapterId chapter = chapId) (courseContent course) of
                  None \<Rightarrow> (Json_failure ''Chapter not found'', st)
                | Some chapterIndex \<Rightarrow>
                    if data_lectureUrl lectureData = [] \<or> \<not> isValidVideoUrl (data_lectureUrl lectureData)
                    then (Json_failure ''Invalid video URL'', st)
                    else (let chapter = courseContent course ! chapterIndex;
                              maxOrder = (case map lectureOrder (chapterContent chapter) of
                                            [] \<Rightarrow> 0
                                          | x # xs \<Rightarrow> foldl max x xs);
                              newLecture =
                                \<lparr>lectureId = data_lectureId lectureData,
                                 lectureTitle = data_lectureTitle lectureData,
                                 lectureDuration = data_lectureDuration lectureData,
                                 lectureUrl = data_lectureUrl lectureData,
                                 isPreviewFree = (case data_isPreviewFree lectureData of
                                                    Some b \<Rightarrow> b | None \<Rightarrow> False),
                                 lectureOrder = js_add maxOrder 1\<rparr>
                          in (Json_lecture ''Lecture added'' newLecture,
                              Course_save courseId
                                (course\<lparr>courseContent := (courseContent course)[chapterIndex :=
                                   chapter\<lparr>chapterContent := chapterContent chapter @ [newLecture]\<rparr>]\<rparr>)
                                st))))"

text \<open>A sequence of \<open>updateUserCourseProgress\<close> requests, each given by its user, course
  and lecture.\<close>

fun updateUserCourseProgress_calls :: "(string \<times> string \<times> string) list \<Rightarrow> store \<Rightarrow> store" where
  "updateUserCourseProgress_calls [] st = st"
| "updateUserCourseProgress_calls ((userId, courseId, lecId) # calls) st =
     updateUserCourseProgress_calls calls (snd (updateUserCourseProgress userId courseId lecId st))"

text \<open>A sequence of \<open>/mark-complete\<close> requests to the progress controller, each given by
  its time, user, course and lecture.\<close>

fun progressController_markLectureAsComplete_calls ::
  "(date \<times> string \<times> string \<times> string) list \<Rightarrow> store \<Rightarrow> store" where
  "progressController_markLectureAsComplete_calls [] st = st"
| "progressController_markLectureAsComplete_calls ((now, userId, courseId, lecId) # calls) st =
     progressController_markLectureAsComplete_calls calls
       (snd (progressController_markLectureAsComplete now userId courseId lecId st))"

section \<open>The data of the test suites\<close>

text \<open>The course of \<open>content-organization.test.js\<close>, with the price and discount of
  \<open>payment-processing.test.js\<close> (the literal \<open>99.99\<close> is the double nearest to it).\<close>

definition mockCourse :: course where
  "mockCourse =
     \<lparr>courseTitle = ''JavaScript Fundamentals'', coursePrice = fl (9999 / 100), discount = 20,
      educator = ''educator_123'',
      courseContent =
        [\<lparr>chapterId = ''chapter_2'', chapterTitle = ''JavaScript Variables'', chapterOrder = 2,
          chapterContent =
            [\<lparr>lectureId = ''lecture_3'', lectureTitle = ''Variable Types'', lectureDuration = 20,
              lectureUrl = ''https://youtube.com/watch?v=789'', isPreviewFree = False, lectureOrder = 1\<rparr>,
             \<lparr>lectureId = ''lecture_4'', lectureTitle = ''Variable Scope'', lectureDuration = 15,
              lectureUrl = ''https://youtube.com/watch?v=101112'', isPreviewFree = True, lectureOrder = 2\<rparr>]\<rparr>,
         \<lparr>chapterId = ''chapter_1'', chapterTitle = ''Introduction to JavaScript'', chapterOrder = 1,
          chapterContent =
            [\<lparr>lectureId = ''lecture_2'', lectureTitle = ''JavaScript History'', lectureDuration = 10,
              lectureUrl = ''https://youtube.com/watch?v=456'', isPreviewFree = False, lectureOrder = 2\<rparr>,
             \<lparr>lectureId = ''lecture_1'', lectureTitle = ''What is JavaScript?'', lectureDuration = 15,
              lectureUrl = ''https://youtube.com/watch?v=123'', isPreviewFree = True, lectureOrder = 1\<rparr>]\<rparr>],
      courseRatings = [], enrolledStudents = []\<rparr>"

definition mockUser :: user where
  "mockUser = \<lparr>user_name = ''Test User'', email = ''test@example.com'', enrolledCourses = []\<rparr>"

definition mockPurchase :: purchase where
  "mockPurchase =
     \<lparr>purchase_courseId = ''course_123'', purchase_userId = ''user_123'',
      amount = Fixed2 False 7999, status = Pending\<rparr>"

definition mockStore :: store where
  "mockStore =
     \<lparr>users = [''user_123'' \<mapsto> mockUser], courses = [''course_123'' \<mapsto> mockCourse],
      purchases = [mockPurchase], courseProgress = Map.empty, progressDocs = Map.empty,
      oplog = [], checkout_requests = [], console = []\<rparr>"

text \<open>Stripe as the tests stub it: the signature \<open>test_signature\<close> verifies and yields the
  event \<open>payment_intent.succeeded\<close> whose session names purchase 0; any other signature
  is rejected.\<close>

definition mockStripe :: stripe where
  "mockStripe =
     \<lparr>constructEvent = (\<lambda>body sig.
         if sig = ''test_signature''
         then Inr \<lparr>event_type = ''payment_intent.succeeded'', payment_intent_id = ''pi_123456''\<rparr>
         else Inl ''Invalid signature''),
      sessions_list = (\<lambda>payment_intent. [0]),
      sessions_create = (\<lambda>request. Inr ''https://checkout.stripe.com/session_123'')\<rparr>"

text \<open>The store after the event has been delivered once, and after the same event has
  been delivered a second time.\<close>

definition deliveredOnce :: store where
  "deliveredOnce = snd (stripeWebhooks mockStripe ''raw_body_data'' ''test_signature'' mockStore)"

definition deliveredTwice :: store where
  "deliveredTwice = snd (stripeWebhooks mockStripe ''raw_body_data'' ''test_signature'' deliveredOnce)"

text \<open>The progress documents of the tests: lecture 456 is completed in the user
  controller's collection, lecture 1 in the \<open>CourseProgress\<close> document.\<close>

definition progressStore :: store where
  "progressStore =
     mockStore\<lparr>courseProgress := [(''user_123'', ''course_123'') \<mapsto> \<lparr>lectureCompleted = [''lecture_456'']\<rparr>]\<rparr>"

definition mockProgress :: progress where
  "mockProgress = \<lparr>completedLectures = [''lecture_1''], lastAccessed = 0, completionPercentage = 0\<rparr>"

text \<open>The store once \<open>user_123\<close> is enrolled in \<open>course_123\<close>; the store in which the
  progress controller's collection holds the document above; and the lecture urls that a
  response carries, chapter by chapter.\<close>

definition enrolledStore :: store where
  "enrolledStore =
     mockStore\<lparr>users := [''user_123'' \<mapsto> mockUser\<lparr>enrolledCourses := [''course_123'']\<rparr>],
               courses := [''course_123'' \<mapsto> mockCourse\<lparr>enrolledStudents := [Some ''user_123'']\<rparr>]\<rparr>"

definition markedStore :: store where
  "markedStore = mockStore\<lparr>progressDocs := [(''user_123'', ''course_123'') \<mapsto> mockProgress]\<rparr>"

definition returned_urls :: "response \<Rightarrow> string list list" where
  "returned_urls r =
     (case r of
        Json_courseData c \<Rightarrow> map (\<lambda>chapter. map lectureUrl (chapterContent chapter)) (courseContent c)
      | _ \<Rightarrow> [])"

text \<open>The two \<open>addLecture\<close> requests: a Vimeo url and a url on another host.\<close>

definition vimeoLectureData :: lecture_data where
  "vimeoLectureData =
     \<lparr>data_lectureId = ''lecture_3'', data_lectureTitle = ''JavaScript Functions'',
      data_lectureDuration = 25, data_lectureUrl = ''https://vimeo.com/123456789'',
      data_isPreviewFree = Some True\<rparr>"

definition invalidLectureData :: lecture_data where
  "invalidLectureData = vimeoLectureData\<lparr>data_lectureUrl := ''https://invalid-host.com/video''\<rparr>"

section \<open>Further examples\<close>

text \<open>A course of one chapter with forty lectures, of which a user has completed
  twenty-three; and a course that costs 19.50 with a discount of 15 percent.\<close>

definition numberedLecture :: "nat \<Rightarrow> lecture" where
  "numberedLecture n =
     \<lparr>lectureId = ''lecture_'' @ digits n, lectureTitle = ''Lecture'', lectureDuration = 10,
      lectureUrl = ''https://youtube.com/watch?v=123'', isPreviewFree = False, lectureOrder = of_nat n\<rparr>"

definition fortyLectures :: course where
  "fortyLectures =
     mockCourse\<lparr>courseContent :=
       [\<lparr>chapterId = ''chapter_1'', chapterTitle = ''Introduction to JavaScript'', chapterOrder = 1,
         chapterContent = map numberedLecture [1..<41]\<rparr>]\<rparr>"

definition twentyThreeCompleted :: progress where
  "twentyThreeCompleted =
     \<lparr>completedLectures = map (\<lambda>n. ''lecture_'' @ digits n) [1..<24], lastAccessed = 0,
      completionPercentage = 0\<rparr>"

definition fortyLecturesStore :: store where
  "fortyLecturesStore =
     mockStore\<lparr>courses := [''course_123'' \<mapsto> fortyLectures],
               progressDocs := [(''user_123'', ''course_123'') \<mapsto> twentyThreeCompleted]\<rparr>"

definition discountStore :: store where
  "discountStore =
     mockStore\<lparr>courses := [''course_123'' \<mapsto> mockCourse\<lparr>coursePrice := 39 / 2, discount := 15\<rparr>],
               purchases := []\<rparr>"

section \<open>Webhook: signature failure\<close>

text \<open>
  C9. When the signature does not verify (\<open>constructEvent\<close> throws), the handler answers
  with HTTP status 400 and the text \<open>Webhook Error: \<close> followed by the error's message,
  not with a JSON envelope, and the store is exactly what it was: no purchase, user or
  course is read or written.
\<close>

theorem stripeWebhooks_invalid_signature:
  "constructEvent ext body sig = Inl err \<Longrightarrow>
   stripeWebhooks ext body sig st = (Status_send 400 (''Webhook Error: '' @ err), st)"
  by (simp add: stripeWebhooks_def)

theorem stripeWebhooks_invalid_signature_witness:
  "stripeWebhooks mockStripe ''raw_body_data'' ''invalid_signature'' mockStore
     = (Status_send 400 ''Webhook Error: Invalid signature'', mockStore)"
  using stripeWebhooks_invalid_signature [of mockStripe "''raw_body_data''" "''invalid_signature''"
      "''Invalid signature''" mockStore]
  by (simp add: mockStripe_def)

section \<open>Webhook: delivering a success event again\<close>

lemma deliveredOnce_eq:
  "deliveredOnce =
     \<lparr>users = [''user_123'' \<mapsto> mockUser\<lparr>enrolledCourses := [''course_123'']\<rparr>],
      courses = [''course_123'' \<mapsto> mockCourse\<lparr>enrolledStudents := [Some ''user_123'']\<rparr>],
      purchases = [mockPurchase\<lparr>status := Completed\<rparr>],
      courseProgress = Map.empty, progressDocs = Map.empty,
      oplog = [Saved_course ''course_123'', Saved_user ''user_123'', Saved_purchase 0],
      checkout_requests = [], console = []\<rparr>"
  by (simp add: deliveredOnce_def stripeWebhooks_def payment_succeeded_def Course_save_def
      User_save_def Purchase_save_def mockStripe_def mockStore_def Purchase_findById_def
      mockPurchase_def mockUser_def mockCourse_def)

text \<open>
  C1, as stated, fails. After the first delivery the purchase is \<open>completed\<close> and the user
  is enrolled once; delivering the same \<open>payment_intent.succeeded\<close> event again leaves the
  user twice in the course's \<open>enrolledStudents\<close> and the course twice in the user's
  \<open>enrolledCourses\<close>.
\<close>

theorem stripeWebhooks_replay_counterexample:
  "map_option status (Purchase_findById deliveredOnce 0) = Some Completed
   \<and> map_option enrolledStudents (courses deliveredOnce ''course_123'') = Some [Some ''user_123'']
   \<and> map_option enrolledCourses (users deliveredOnce ''user_123'') = Some [''course_123'']
   \<and> map_option enrolledStudents (courses deliveredTwice ''course_123'')
       = Some [Some ''user_123'', Some ''user_123'']
   \<and> map_option enrolledCourses (users deliveredTwice ''user_123'') = Some [''course_123'', ''course_123'']
   \<and> deliveredTwice \<noteq> deliveredOnce"
  by (simp add: deliveredTwice_def deliveredOnce_eq stripeWebhooks_def payment_succeeded_def
      Course_save_def User_save_def Purchase_save_def mockStripe_def Purchase_findById_def
      mockPurchase_def mockUser_def mockCourse_def)

text \<open>
  C1, amended. For every purchase whose user and course exist, whatever its status
  (pending, completed or failed), a \<open>payment_intent.succeeded\<close> event that names it is
  acknowledged and makes exactly these changes: the user is appended to the course's
  \<open>enrolledStudents\<close>, the course is appended to the user's \<open>enrolledCourses\<close>, the status
  is set to \<open>completed\<close>, and the course, the user and the purchase are saved. A purchase
  that was completed stays completed, and its enrolment is recorded once more.
\<close>

theorem payment_succeeded_enrolls_again:
  assumes "constructEvent ext body sig = Inr ev"
    and "event_type ev = ''payment_intent.succeeded''"
    and "sessions_list ext (payment_intent_id ev) = purchaseId # others"
    and "Purchase_findById st purchaseId = Some p"
    and "users st (purchase_userId p) = Some u"
    and "courses st (purchase_courseId p) = Some c"
  shows "stripeWebhooks ext body sig st =
    (Json_received,
     st\<lparr>courses := (courses st)(purchase_courseId p \<mapsto>
            c\<lparr>enrolledStudents := enrolledStudents c @ [Some (purchase_userId p)]\<rparr>),
        users := (users st)(purchase_userId p \<mapsto>
            u\<lparr>enrolledCourses := enrolledCourses u @ [purchase_courseId p]\<rparr>),
        purchases := (purchases st)[purchaseId := p\<lparr>status := Completed\<rparr>],
        oplog := oplog st @ [Saved_course (purchase_courseId p), Saved_user (purchase_userId p),
                             Saved_purchase purchaseId]\<rparr>)"
  using assms
  by (simp add: stripeWebhooks_def payment_succeeded_def Course_save_def User_save_def Purchase_save_def)

theorem payment_succeeded_enrolls_again_witness:
  "status (purchases deliveredOnce ! 0) = Completed \<and>
   stripeWebhooks mockStripe ''raw_body_data'' ''test_signature'' deliveredOnce =
    (Json_received,
     deliveredOnce\<lparr>courses := (courses deliveredOnce)(''course_123'' \<mapsto>
            mockCourse\<lparr>enrolledStudents := [Some ''user_123'', Some ''user_123'']\<rparr>),
        users := (users deliveredOnce)(''user_123'' \<mapsto>
            mockUser\<lparr>enrolledCourses := [''course_123'', ''course_123'']\<rparr>),
        purchases := [mockPurchase\<lparr>status := Completed\<rparr>],
        oplog := oplog deliveredOnce @ [Saved_course ''course_123'', Saved_user ''user_123'',
                             Saved_purchase 0]\<rparr>)"
  using payment_succeeded_enrolls_again [of mockStripe "''raw_body_data''" "''test_signature''"
      "\<lparr>event_type = ''payment_intent.succeeded'', payment_intent_id = ''pi_123456''\<rparr>"
      0 "[]" deliveredOnce "mockPurchase\<lparr>status := Completed\<rparr>"
      "mockUser\<lparr>enrolledCourses := [''course_123'']\<rparr>"
      "mockCourse\<lparr>enrolledStudents := [Some ''user_123'']\<rparr>"]
  by (simp add: deliveredOnce_eq mockStripe_def Purchase_findById_def mockPurchase_def)

section \<open>Ratings\<close>

text \<open>
  C8. For every rating below 1 or above 5 (0 and 6 among them), \<open>addUserRating\<close> answers
  the failure \<open>InValid Details\<close> and the store is exactly what it was: no rating is
  added or changed and no course is saved.
\<close>

theorem addUserRating_out_of_range:
  "r < 1 \<or> 5 < r \<Longrightarrow> addUserRating userId courseId r st = (Json_failure ''InValid Details'', st)"
  by (auto simp add: addUserRating_def)

theorem addUserRating_out_of_range_witness:
  "addUserRating ''user_123'' ''course_123'' 0 mockStore = (Json_failure ''InValid Details'', mockStore)
   \<and> addUserRating ''user_123'' ''course_123'' 6 mockStore = (Json_failure ''InValid Details'', mockStore)"
  using addUserRating_out_of_range [of 0 "''user_123''" "''course_123''" mockStore]
        addUserRating_out_of_range [of 6 "''user_123''" "''course_123''" mockStore]
  by simp

section \<open>Reading progress\<close>

text \<open>
  C7, as stated, fails. The store of the tests holds no progress document for
  \<open>user_123\<close> and \<open>course_123\<close>, and \<open>getUserCourseProgress\<close> of the user controller (the
  learning controller's is the same function) answers success with \<open>progressData\<close> null:
  no empty list and no zero percentage stand in for the missing document.
\<close>

theorem getUserCourseProgress_null_counterexample:
  "courseProgress mockStore (''user_123'', ''course_123'') = None
   \<and> getUserCourseProgress ''user_123'' ''course_123'' mockStore = (Json_progressData None, mockStore)"
  by (simp add: getUserCourseProgress_def mockStore_def)

text \<open>
  C7, amended. For every user and course without a progress document,
  \<open>getUserCourseProgress\<close> of the user controller and of the learning controller answers
  success with \<open>progressData\<close> null, not a failure, and changes nothing. The function that
  answers with defaults is \<open>getUserCourseProgress\<close> of the progress controller: success
  with an empty list of completed lectures, percentage 0 and no last access, and nothing
  changed.
\<close>

theorem getUserCourseProgress_defaults:
  "(courseProgress st (userId, courseId) = None \<longrightarrow>
      getUserCourseProgress userId courseId st = (Json_progressData None, st))
   \<and> (progressDocs st (userId, courseId) = None \<longrightarrow>
      progressController_getUserCourseProgress userId courseId st = (Json_progress [] 0 None, st))"
  by (simp add: getUserCourseProgress_def progressController_getUserCourseProgress_def)

theorem getUserCourseProgress_defaults_witness:
  "getUserCourseProgress ''user_456'' ''course_123'' progressStore = (Json_progressData None, progressStore)
   \<and> progressController_getUserCourseProgress ''user_123'' ''course_123'' mockStore
     = (Json_progress [] 0 None, mockStore)"
  using getUserCourseProgress_defaults [of progressStore "''user_456''" "''course_123''"]
    getUserCourseProgress_defaults [of mockStore "''user_123''" "''course_123''"]
  by (simp add: mockStore_def progressStore_def)

section \<open>What a viewer receives\<close>

text \<open>The test of the content controller: chapters and lectures come back in order, the
  urls of lectures 2 and 3 are blank for a viewer who is not enrolled, and all four urls
  are there for one who is.\<close>

lemma getCourseById_mockCourse:
  "getCourseById (Some False) ''course_123'' mockStore =
     (Json_courseData (mockCourse\<lparr>courseContent :=
        [\<lparr>chapterId = ''chapter_1'', chapterTitle = ''Introduction to JavaScript'', chapterOrder = 1,
          chapterContent =
            [\<lparr>lectureId = ''lecture_1'', lectureTitle = ''What is JavaScript?'', lectureDuration = 15,
              lectureUrl = ''https://youtube.com/watch?v=123'', isPreviewFree = True, lectureOrder = 1\<rparr>,
             \<lparr>lectureId = ''lecture_2'', lectureTitle = ''JavaScript History'', lectureDuration = 10,
              lectureUrl = [], isPreviewFree = False, lectureOrder = 2\<rparr>]\<rparr>,
         \<lparr>chapterId = ''chapter_2'', chapterTitle = ''JavaScript Variables'', chapterOrder = 2,
          chapterContent =
            [\<lparr>lectureId = ''lecture_3'', lectureTitle = ''Variable Types'', lectureDuration = 20,
              lectureUrl = [], isPreviewFree = False, lectureOrder = 1\<rparr>,
             \<lparr>lectureId = ''lecture_4'', lectureTitle = ''Variable Scope'', lectureDuration = 15,
              lectureUrl = ''https://youtube.com/watch?v=101112'', isPreviewFree = True, lectureOrder = 2\<rparr>]\<rparr>]\<rparr>),
      mockStore)"
  by (simp add: getCourseById_def mockStore_def mockCourse_def)

text \<open>\<open>getCourseWithPreview\<close> takes no enrolment: it blanks what \<open>getCourseById\<close> blanks for a
  viewer who is not enrolled, whoever asks.\<close>

lemma getCourseWithPreview_blanks:
  assumes "courses st cid = Some courseData"
  shows "getCourseWithPreview cid st =
     (Json_courseData (courseData\<lparr>courseContent :=
        map (\<lambda>chapter. chapter\<lparr>chapterContent :=
               map (\<lambda>lecture. if isPreviewFree lecture then lecture else lecture\<lparr>lectureUrl := []\<rparr>)
                   (chapterContent chapter)\<rparr>)
            (courseContent courseData)\<rparr>), st)"
proof -
  have "(\<lambda>lecture::lecture. if \<not> isPreviewFree lecture then lecture\<lparr>lectureUrl := []\<rparr> else lecture)
      = (\<lambda>lecture. if isPreviewFree lecture then lecture else lecture\<lparr>lectureUrl := []\<rparr>)"
    by auto
  with assms show ?thesis by (simp add: getCourseWithPreview_def)
qed

lemma getCourseById_multisets:
  assumes "courses st cid = Some courseData"
  shows "\<exists>returned. getCourseById req_isEnrolled cid st = (Json_courseData returned, st)
    \<and> image_mset (\<lambda>chapter. (chapter\<lparr>chapterContent := []\<rparr>, mset (chapterContent chapter)))
         (mset (courseContent returned))
      = image_mset (\<lambda>chapter. (chapter\<lparr>chapterContent := []\<rparr>,
           image_mset (\<lambda>lecture. if isPreviewFree lecture \<or> req_isEnrolled = Some True then lecture
                                   else lecture\<lparr>lectureUrl := []\<rparr>)
             (mset (chapterContent chapter))))
         (mset (courseContent courseData))"
proof (cases "req_isEnrolled = Some True")
  case True
  then show ?thesis
    using assms
    by (simp add: getCourseById_def Let_def multiset.map_comp comp_def)
next
  case False
  then have e: "(case req_isEnrolled of Some b \<Rightarrow> b | None \<Rightarrow> False) = False"
    by (cases req_isEnrolled) auto
  have blank: "(\<lambda>lecture::lecture. if \<not> isPreviewFree lecture then lecture\<lparr>lectureUrl := []\<rparr> else lecture)
      = (\<lambda>lecture. if isPreviewFree lecture then lecture else lecture\<lparr>lectureUrl := []\<rparr>)"
    by auto
  from False e assms show ?thesis
    by (simp add: getCourseById_def Let_def multiset.map_comp comp_def blank)
qed

text \<open>
  C2, as stated, fails. \<open>user_123\<close> is enrolled in \<open>course_123\<close>, and the course that
  \<open>getCourseWithPreview\<close> returns has the empty string as the url of lectures 3 and 2,
  which are not free previews; \<open>getCourseById\<close>, for a request marked enrolled, returns
  all four urls as they are stored.
\<close>

theorem getCourseWithPreview_enrolled_counterexample:
  "map_option enrolledCourses (users enrolledStore ''user_123'') = Some [''course_123'']
   \<and> map_option enrolledStudents (courses enrolledStore ''course_123'') = Some [Some ''user_123'']
   \<and> returned_urls (fst (getCourseWithPreview ''course_123'' enrolledStore))
       = [[[], ''https://youtube.com/watch?v=101112''], [[], ''https://youtube.com/watch?v=123'']]
   \<and> returned_urls (fst (getCourseById (Some True) ''course_123'' enrolledStore))
       = [[''https://youtube.com/watch?v=123'', ''https://youtube.com/watch?v=456''],
          [''https://youtube.com/watch?v=789'', ''https://youtube.com/watch?v=101112'']]"
  by (simp add: enrolledStore_def mockStore_def mockCourse_def mockUser_def returned_urls_def
      getCourseWithPreview_def getCourseById_def)

text \<open>
  C2, amended. \<open>getCourseById\<close> returns every course that exists, and the returned
  chapters are the stored chapters, each with the same header and with lectures that are,
  one for one, the stored lectures of that chapter: a lecture that is a free preview, and
  every lecture when the request is marked enrolled, is returned as it is stored; a
  lecture that is not a free preview is returned to a viewer who is not enrolled with the
  empty string as its url and nothing else changed. (Chapters and lectures come back
  sorted, so the comparison is between multisets.) \<open>getCourseWithPreview\<close> (and
  \<open>getCourseId\<close> of the course controller) looks at no enrolment: for every viewer,
  enrolled or not, it returns the stored chapters in the stored order with the url of
  every lecture that is not a free preview replaced by the empty string, and every free
  preview as it is stored. Neither changes the store.
\<close>

theorem returned_lecture_urls:
  assumes "courses st cid = Some courseData"
  shows "(\<exists>returned. getCourseById req_isEnrolled cid st = (Json_courseData returned, st)
    \<and> image_mset (\<lambda>chapter. (chapter\<lparr>chapterContent := []\<rparr>, mset (chapterContent chapter)))
         (mset (courseContent returned))
      = image_mset (\<lambda>chapter. (chapter\<lparr>chapterContent := []\<rparr>,
           image_mset (\<lambda>lecture. if isPreviewFree lecture \<or> req_isEnrolled = Some True then lecture
                                   else lecture\<lparr>lectureUrl := []\<rparr>)
             (mset (chapterContent chapter))))
         (mset (courseContent courseData)))
    \<and> getCourseWithPreview cid st =
        (Json_courseData (courseData\<lparr>courseContent :=
           map (\<lambda>chapter. chapter\<lparr>chapterContent :=
                  map (\<lambda>lecture. if isPreviewFree lecture then lecture else lecture\<lparr>lectureUrl := []\<rparr>)
                      (chapterContent chapter)\<rparr>)
               (courseContent courseData)\<rparr>), st)"
  using getCourseById_multisets [OF assms] getCourseWithPreview_blanks [OF assms]
  by (rule conjI)

theorem returned_lecture_urls_witness:
  "(\<exists>returned. getCourseById (Some True) ''course_123'' enrolledStore = (Json_courseData returned, enrolledStore)
    \<and> image_mset (\<lambda>chapter. (chapter\<lparr>chapterContent := []\<rparr>, mset (chapterContent chapter)))
         (mset (courseContent returned))
      = image_mset (\<lambda>chapter. (chapter\<lparr>chapterContent := []\<rparr>, mset (chapterContent chapter)))
         (mset (courseContent mockCourse)))
   \<and> returned_urls (fst (getCourseWithPreview ''course_123'' enrolledStore))
       = [[[], ''https://youtube.com/watch?v=101112''], [[], ''https://youtube.com/watch?v=123'']]"
proof -
  have c: "courses enrolledStore ''course_123'' = Some (mockCourse\<lparr>enrolledStudents := [Some ''user_123'']\<rparr>)"
    by (simp add: enrolledStore_def)
  note t = returned_lecture_urls [OF c, of "Some True"]
  from t have 1: "\<exists>returned. getCourseById (Some True) ''course_123'' enrolledStore
        = (Json_courseData returned, enrolledStore)
    \<and> image_mset (\<lambda>chapter. (chapter\<lparr>chapterContent := []\<rparr>, mset (chapterContent chapter)))
         (mset (courseContent returned))
      = image_mset (\<lambda>chapter. (chapter\<lparr>chapterContent := []\<rparr>, mset (chapterContent chapter)))
         (mset (courseContent mockCourse))"
    by simp
  from t have "getCourseWithPreview ''course_123'' enrolledStore =
        (Json_courseData (mockCourse\<lparr>enrolledStudents := [Some ''user_123''], courseContent :=
           map (\<lambda>chapter. chapter\<lparr>chapterContent :=
                  map (\<lambda>lecture. if isPreviewFree lecture then lecture else lecture\<lparr>lectureUrl := []\<rparr>)
                      (chapterContent chapter)\<rparr>)
               (courseContent mockCourse)\<rparr>), enrolledStore)"
    by simp
  then have 2: "returned_urls (fst (getCourseWithPreview ''course_123'' enrolledStore))
       = [[[], ''https://youtube.com/watch?v=101112''], [[], ''https://youtube.com/watch?v=123'']]"
    by (simp add: returned_urls_def mockCourse_def)
  from 1 2 show ?thesis by (rule conjI)
qed

section \<open>Properties of the number model\<close>

lemma binade_up_bounds:
  "1 \<le> x \<Longrightarrow> 2 ^ binade_up x \<le> x \<and> x < 2 ^ Suc (binade_up x)"
proof (induction x rule: binade_up.induct)
  case (1 x)
  show ?case
  proof (cases "x < 2")
    case True
    then have "binade_up x = 0" by (subst binade_up.simps) simp
    with True "1.prems" show ?thesis by simp
  next
    case False
    then have eq: "binade_up x = Suc (binade_up (x / 2))" by (subst binade_up.simps) simp
    from False have "1 \<le> x / 2" by simp
    from "1.IH" [OF False this] show ?thesis by (simp add: eq)
  qed
qed

lemma binade_down_bounds:
  "0 < x \<Longrightarrow> x < 1 \<Longrightarrow> 1 \<le> x * 2 ^ binade_down x \<and> x * 2 ^ binade_down x < 2"
proof (induction x rule: binade_down.induct)
  case (1 x)
  from "1.prems" have step: "\<not> (x \<le> 0 \<or> 1 \<le> x)" by simp
  then have eq: "binade_down x = Suc (binade_down (2 * x))" by (subst binade_down.simps) simp
  show ?case
  proof (cases "2 * x < 1")
    case True
    with "1.IH" [OF step] "1.prems" show ?thesis by (simp add: eq mult.assoc mult.left_commute)
  next
    case False
    then have "binade_down (2 * x) = 0" by (subst binade_down.simps) simp
    with False "1.prems" show ?thesis by (simp add: eq)
  qed
qed

lemma exponent_bounds:
  assumes "0 < x"
  shows "2 powi exponent x \<le> x" and "x < 2 powi (exponent x + 1)"
proof -
  show "2 powi exponent x \<le> x"
  proof (cases "1 \<le> x")
    case True
    with binade_up_bounds [OF True] show ?thesis by (simp add: exponent_def)
  next
    case False
    with assms binade_down_bounds [of x] have "1 \<le> x * 2 ^ binade_down x" by simp
    with False show ?thesis
      by (simp add: exponent_def power_int_minus_divide field_simps)
  qed
  show "x < 2 powi (exponent x + 1)"
  proof (cases "1 \<le> x")
    case True
    with binade_up_bounds [OF True] show ?thesis
      by (simp add: exponent_def power_int_add)
  next
    case False
    with assms binade_down_bounds [of x] have "x * 2 ^ binade_down x < 2" by simp
    then have "x < 2 / 2 ^ binade_down x" by (simp add: field_simps)
    moreover have "(2::rat) powi (- int (binade_down x) + 1) = 2 / 2 ^ binade_down x"
      using power_int_diff [of "2::rat" 1 "int (binade_down x)"] by simp
    ultimately show ?thesis using False by (simp add: exponent_def)
  qed
qed

lemma roundTiesToEven_error: "\<bar>of_int (roundTiesToEven y) - y\<bar> \<le> 1 / 2"
proof -
  define r where "r = y - of_int \<lfloor>y\<rfloor>"
  have r: "0 \<le> r" "r < 1" unfolding r_def by linarith+
  have y: "y = of_int \<lfloor>y\<rfloor> + r" by (simp add: r_def)
  consider "r < 1 / 2" | "1 / 2 < r" | "r = 1 / 2" by linarith
  then show ?thesis
  proof cases
    case 1
    then have "roundTiesToEven y = \<lfloor>y\<rfloor>" by (simp add: roundTiesToEven_def r_def)
    with 1 r show ?thesis by (subst (2) y) simp
  next
    case 2
    then have "roundTiesToEven y = \<lfloor>y\<rfloor> + 1" by (simp add: roundTiesToEven_def r_def)
    with 2 r show ?thesis by (subst (2) y) simp
  next
    case 3
    then have "roundTiesToEven y = \<lfloor>y\<rfloor> \<or> roundTiesToEven y = \<lfloor>y\<rfloor> + 1"
      by (simp add: roundTiesToEven_def r_def Let_def)
    moreover from 3 y have "y = of_int \<lfloor>y\<rfloor> + 1 / 2" by simp
    ultimately show ?thesis
    proof (elim disjE)
      assume "roundTiesToEven y = \<lfloor>y\<rfloor>"
      then have "of_int (roundTiesToEven y) = (of_int \<lfloor>y\<rfloor> :: rat)" by simp
      with \<open>y = of_int \<lfloor>y\<rfloor> + 1 / 2\<close> show ?thesis by linarith
    next
      assume "roundTiesToEven y = \<lfloor>y\<rfloor> + 1"
      then have "of_int (roundTiesToEven y) = (of_int \<lfloor>y\<rfloor> :: rat) + 1" by simp
      with \<open>y = of_int \<lfloor>y\<rfloor> + 1 / 2\<close> show ?thesis by linarith
    qed
  qed
qed

lemma roundTiesToEven_of_int: "roundTiesToEven (of_int k) = k"
  by (simp add: roundTiesToEven_def)

lemma fl_error:
  assumes "x \<noteq> 0"
  shows "\<bar>fl x - x\<bar> \<le> 2 powi (exponent \<bar>x\<bar> - 53)"
proof -
  define u :: rat where "u = 2 powi (exponent \<bar>x\<bar> - 52)"
  have u: "0 < u" by (simp add: u_def)
  have half: "u / 2 = 2 powi (exponent \<bar>x\<bar> - 53)"
    by (simp add: u_def power_int_diff)
  have "fl x = sgn x * of_int (roundTiesToEven (\<bar>x\<bar> / u)) * u"
    using assms by (simp add: fl_def u_def Let_def)
  moreover have "x = sgn x * (\<bar>x\<bar> / u) * u"
    using u by (simp add: mult.assoc flip: abs_sgn) (metis mult_sgn_abs)
  ultimately have "fl x - x = sgn x * (of_int (roundTiesToEven (\<bar>x\<bar> / u)) - \<bar>x\<bar> / u) * u"
    by (simp add: algebra_simps)
  then have "\<bar>fl x - x\<bar> = \<bar>of_int (roundTiesToEven (\<bar>x\<bar> / u)) - \<bar>x\<bar> / u\<bar> * u"
    using assms u by (simp add: abs_mult abs_sgn_eq)
  also have "\<dots> \<le> (1 / 2) * u"
    using roundTiesToEven_error [of "\<bar>x\<bar> / u"] u by (intro mult_right_mono) simp_all
  finally show ?thesis using half by simp
qed


lemma exponent_less:
  assumes "0 < x" and "x < 2 powi n"
  shows "exponent x < n"
proof (rule ccontr)
  assume "\<not> exponent x < n"
  then have "(2::rat) powi n \<le> 2 powi exponent x"
    by (intro power_int_increasing) simp_all
  with exponent_bounds(1) [OF assms(1)] assms(2) show False by simp
qed

lemma exponent_ge:
  assumes "2 powi n \<le> x"
  shows "n \<le> exponent x"
proof (rule ccontr)
  assume "\<not> n \<le> exponent x"
  then have "(2::rat) powi (exponent x + 1) \<le> 2 powi n"
    by (intro power_int_increasing) simp_all
  moreover have "0 < x"
    using assms by (rule less_le_trans [rotated]) simp
  ultimately show False
    using exponent_bounds(2) [of x] assms by simp
qed

lemma fl_0: "fl 0 = 0"
  by (simp add: fl_def)

lemma fl_minus: "fl (- x) = - fl x"
  by (simp add: fl_def Let_def sgn_minus)

lemma fl_of_int:
  assumes "\<bar>k\<bar> < 2 ^ 53"
  shows "fl (of_int k) = of_int k"
proof (cases "k = 0")
  case True
  then show ?thesis by (simp add: fl_0)
next
  case False
  define a :: rat where "a = \<bar>of_int k\<bar>"
  have a: "0 < a" "a = of_int \<bar>k\<bar>" using False by (simp_all add: a_def)
  have "a < 2 ^ 53"
    unfolding a(2) using assms by (metis of_int_less_iff of_int_numeral of_int_power)
  then have "a < 2 powi 53" by simp
  with a(1) have e: "exponent a < 53" by (rule exponent_less)
  define m where "m = nat (52 - exponent a)"
  have u: "(2::rat) powi (exponent a - 52) = 1 / 2 ^ m"
  proof -
    have "exponent a - 52 = - int m" using e by (simp add: m_def)
    then show ?thesis by (simp add: power_int_minus_divide)
  qed
  have "a / (2 powi (exponent a - 52)) = a * 2 ^ m"
    unfolding u by simp
  also have "\<dots> = of_int (\<bar>k\<bar> * 2 ^ m)"
    by (simp add: a_def)
  finally have "roundTiesToEven (a / (2 powi (exponent a - 52))) = \<bar>k\<bar> * 2 ^ m"
    by (simp only: roundTiesToEven_of_int)
  moreover have "fl (of_int k) =
      sgn (of_int k) * of_int (roundTiesToEven (a / 2 powi (exponent a - 52))) * 2 powi (exponent a - 52)"
    unfolding fl_def Let_def a_def using False by simp
  ultimately have "fl (of_int k) = sgn (of_int k) * of_int (\<bar>k\<bar> * 2 ^ m) * (1 / 2 ^ m)"
    by (simp only: u)
  also have "\<dots> = sgn (of_int k) * \<bar>of_int k\<bar>" by simp
  also have "\<dots> = of_int k" by (rule sgn_mult_abs)
  finally show ?thesis .
qed

text \<open>Below \<open>2 ^ 45\<close> a double is within \<open>2 ^ -9\<close> of the value it rounds.\<close>

lemma fl_error_small:
  assumes "\<bar>x\<bar> < 2 ^ 45"
  shows "\<bar>fl x - x\<bar> \<le> 1 / 2 ^ 9"
proof (cases "x = 0")
  case True
  then show ?thesis by (simp add: fl_0)
next
  case False
  from assms have "\<bar>x\<bar> < 2 powi 45" by simp
  with False have "exponent \<bar>x\<bar> < 45" by (intro exponent_less) simp_all
  then have "(2::rat) powi (exponent \<bar>x\<bar> - 53) \<le> 2 powi (- 9)"
    by (intro power_int_increasing) simp_all
  with fl_error [OF False] show ?thesis
    by (simp add: power_int_minus_divide)
qed

lemma floor_fl_hundredths:
  assumes "n mod 100 \<noteq> 0" and "n < 10 ^ 15"
  shows "\<lfloor>fl (of_nat n / 100)\<rfloor> = int (n div 100)"
proof -
  define x :: rat where "x = of_nat n / 100"
  define d where "d = n div 100"
  define c where "c = n mod 100"
  have n: "n = 100 * d + c" by (simp add: d_def c_def)
  have c: "1 \<le> c" "c \<le> 99" using assms(1) by (simp_all add: c_def)
  have x: "x = of_nat d + of_nat c / 100" by (simp add: x_def n)
  have "of_nat c / 100 \<ge> (1::rat) / 100" "of_nat c / 100 \<le> (99::rat) / 100"
    using c by simp_all
  with x have lo: "of_nat d + 1 / 100 \<le> x" and hi: "x \<le> of_nat d + 99 / 100" by simp_all
  have "(of_nat n :: rat) < 10 ^ 15"
    using assms(2) by (metis of_nat_less_iff of_nat_numeral of_nat_power)
  then have "x < 2 ^ 45" by (simp add: x_def)
  moreover have "0 \<le> x" by (simp add: x_def)
  ultimately have "\<bar>x\<bar> < 2 ^ 45" by simp
  from fl_error_small [OF this] have "\<bar>fl x - x\<bar> \<le> 1 / 512" by simp
  then have "fl x - x \<le> 1 / 512" "x - fl x \<le> 1 / 512" by linarith+
  with lo hi have "of_nat d \<le> fl x" "fl x < of_nat d + 1" by linarith+
  then have "\<lfloor>fl x\<rfloor> = int d"
    by (intro floor_unique) simp_all
  then show ?thesis by (simp add: x_def d_def)
qed

lemma fl_relative_error: "\<bar>fl x - x\<bar> \<le> \<bar>x\<bar> / 2 ^ 53"
proof (cases "x = 0")
  case True
  then show ?thesis by (simp add: fl_0)
next
  case False
  then have pos: "0 < \<bar>x\<bar>" by simp
  have "(2::rat) powi (exponent \<bar>x\<bar> - 53) = 2 powi exponent \<bar>x\<bar> / 2 ^ 53"
    by (simp add: power_int_diff)
  also have "\<dots> \<le> \<bar>x\<bar> / 2 ^ 53"
    using exponent_bounds(1) [OF pos] by (simp add: divide_right_mono)
  finally show ?thesis using fl_error [OF False] by simp
qed

lemma fl_nonneg: "0 \<le> x \<Longrightarrow> 0 \<le> fl x"
proof -
  assume x: "0 \<le> x"
  have "x / 2 ^ 53 \<le> x" using x by (simp add: field_simps)
  moreover have "\<bar>fl x - x\<bar> \<le> x / 2 ^ 53" using fl_relative_error [of x] x by simp
  ultimately show ?thesis by linarith
qed

lemma percentage_nearest:
  fixes c t :: nat
  assumes t: "0 < t" and c: "c < 2 ^ 40"
  shows "\<bar>of_int (Math_round (js_mul (js_div (of_nat c) (of_nat t)) 100)) - 100 * of_nat c / of_nat t\<bar>
           \<le> (1 / 2 :: rat)"
proof -
  define r :: rat where "r = of_nat c / of_nat t"
  define q where "q = fl r"
  define p where "p = fl (q * 100)"
  define n where "n = \<lfloor>p + 1 / 2\<rfloor>"
  define T :: rat where "T = of_nat t"
  have T: "0 < T" using t by (simp add: T_def)
  have r0: "0 \<le> r" by (simp add: r_def)
  have rT: "r * T = of_nat c" using T by (simp add: r_def T_def)
  have "(of_nat c :: rat) < 2 ^ 40"
    using c by (metis of_nat_less_iff of_nat_numeral of_nat_power)
  then have rT_small: "r * T < 2 ^ 40" by (simp add: rT)
  have q0: "0 \<le> q" unfolding q_def using r0 by (rule fl_nonneg)
  have "\<bar>q - r\<bar> \<le> r / 2 ^ 53"
    using fl_relative_error [of r] r0 by (simp add: q_def)
  then have q1: "q - r \<le> r / 2 ^ 53" and q2: "r - q \<le> r / 2 ^ 53" by linarith+
  have "\<bar>p - q * 100\<bar> \<le> q * 100 / 2 ^ 53"
    using fl_relative_error [of "q * 100"] q0 by (simp add: p_def)
  then have p1: "p - q * 100 \<le> q * 100 / 2 ^ 53" and p2: "q * 100 - p \<le> q * 100 / 2 ^ 53"
    by linarith+
  have e1: "p - 100 * r \<le> r / 2 ^ 44" using p1 q1 r0 by simp
  have e2: "100 * r - p \<le> r / 2 ^ 44" using p2 q1 q2 r0 by simp
  have "r / 2 ^ 44 * (2 * T) < 1"
  proof -
    have "r / 2 ^ 44 * (2 * T) = (r * T) / 2 ^ 43" by simp
    also have "\<dots> < 1" using rT_small by simp
    finally show ?thesis .
  qed
  then have small: "r / 2 ^ 44 < 1 / (2 * T)" using T by (simp add: field_simps)
  have n1: "of_int n \<le> p + 1 / 2" and n2: "p + 1 / 2 < of_int n + 1"
    unfolding n_def by linarith+
  define C :: rat where "C = of_nat c"
  have rC: "100 * r * (2 * T) = 200 * C" using rT by (simp add: C_def)
  have Cint: "200 * C = of_int (200 * int c)" by (simp add: C_def)
  have up_int: "(of_int n + 1 / 2) * (2 * T) = of_int ((2 * n + 1) * int t)"
    by (simp add: T_def algebra_simps)
  have lo_int: "(of_int n - 1 / 2) * (2 * T) = of_int ((2 * n - 1) * int t)"
    by (simp add: T_def algebra_simps)
  have upper: "100 * r \<le> of_int n + 1 / 2"
  proof (rule ccontr)
    assume "\<not> 100 * r \<le> of_int n + 1 / 2"
    then have "of_int n + 1 / 2 < 100 * r" by simp
    then have "(of_int n + 1 / 2) * (2 * T) < 100 * r * (2 * T)"
      using T by (simp only: mult_less_cancel_right) simp
    then have "(of_int ((2 * n + 1) * int t) :: rat) < of_int (200 * int c)"
      by (simp only: up_int rC Cint)
    then have "(2 * n + 1) * int t < 200 * int c" by (simp only: of_int_less_iff)
    then have "(2 * n + 1) * int t + 1 \<le> 200 * int c" by simp
    then have "(of_int ((2 * n + 1) * int t + 1) :: rat) \<le> of_int (200 * int c)"
      by (simp only: of_int_le_iff)
    then have "(of_int ((2 * n + 1) * int t) :: rat) + 1 \<le> of_int (200 * int c)"
      by simp
    then have "(of_int n + 1 / 2) * (2 * T) + 1 \<le> 100 * r * (2 * T)"
      by (simp only: up_int rC Cint)
    then have "of_int n + 1 / 2 + 1 / (2 * T) \<le> 100 * r"
      using T by (simp add: field_simps)
    with n2 e2 small show False by linarith
  qed
  have lower: "of_int n - 1 / 2 \<le> 100 * r"
  proof (rule ccontr)
    assume "\<not> of_int n - 1 / 2 \<le> 100 * r"
    then have "100 * r < of_int n - 1 / 2" by simp
    then have "100 * r * (2 * T) < (of_int n - 1 / 2) * (2 * T)"
      using T by (simp only: mult_less_cancel_right) simp
    then have "(of_int (200 * int c) :: rat) < of_int ((2 * n - 1) * int t)"
      by (simp only: lo_int rC Cint)
    then have "200 * int c < (2 * n - 1) * int t" by (simp only: of_int_less_iff)
    then have "200 * int c + 1 \<le> (2 * n - 1) * int t" by simp
    then have "(of_int (200 * int c + 1) :: rat) \<le> of_int ((2 * n - 1) * int t)"
      by (simp only: of_int_le_iff)
    then have "(of_int (200 * int c) :: rat) + 1 \<le> of_int ((2 * n - 1) * int t)"
      by simp
    then have "100 * r * (2 * T) + 1 \<le> (of_int n - 1 / 2) * (2 * T)"
      by (simp only: lo_int rC Cint)
    then have "100 * r + 1 / (2 * T) \<le> of_int n - 1 / 2"
      using T by (simp add: field_simps)
    with n1 e1 small show False by linarith
  qed
  have "Math_round (js_mul (js_div (of_nat c) (of_nat t)) 100) = n"
    by (simp add: Math_round_def js_mul_def js_div_def n_def p_def q_def r_def)
  moreover have "100 * of_nat c / of_nat t = 100 * r" by (simp add: r_def)
  moreover from upper lower have "\<bar>of_int n - 100 * r\<bar> \<le> 1 / 2" by linarith
  ultimately show ?thesis by simp
qed

section \<open>Completion percentage\<close>

lemma foldl_add_length:
  "foldl (\<lambda>total chapter. total + length (chapterContent chapter)) a chapters
     = a + sum_list (map (\<lambda>chapter. length (chapterContent chapter)) chapters)"
  by (induction chapters arbitrary: a) simp_all

lemma totalLectures_sum:
  "totalLectures course = sum_list (map (\<lambda>chapter. length (chapterContent chapter)) (courseContent course))"
  by (simp add: totalLectures_def foldl_add_length)

lemma nearest_integer_cases:
  fixes E :: rat
  assumes "\<bar>of_int n - E\<bar> \<le> 1 / 2"
  shows "n = Math_round E \<or> of_int n = E - 1 / 2"
proof (cases "of_int n = E - 1 / 2")
  case True
  then show ?thesis by simp
next
  case False
  with assms have "of_int n \<le> E + 1 / 2" "E + 1 / 2 < of_int n + 1" by linarith+
  then have "\<lfloor>E + 1 / 2\<rfloor> = n" by (intro floor_unique) simp_all
  then show ?thesis by (simp add: Math_round_def)
qed

text \<open>With 23 of 40 lectures completed: \<open>23 / 40\<close> is the double just below 0.575, its
  product with 100 is the double just below 57.5, and \<open>Math.round\<close> gives 57.\<close>

lemma quotient_23_of_40: "js_div 23 40 = 2589569785738035 / 2 ^ 52"
  by code_simp

lemma product_23_of_40: "js_mul (js_div 23 40) 100 = 8092405580431359 / 2 ^ 47"
  by code_simp

lemma percentage_23_of_40: "Math_round (js_mul (js_div 23 40) 100) = 57"
  by code_simp

lemma exact_23_of_40: "Math_round (100 * 23 / 40) = 58"
  by code_simp

text \<open>
  C4, as stated, fails. A course has 40 lectures and the user has completed 23 of them:
  the exact percentage is 57.5, which rounds to 58, and
  \<open>calculateCompletionPercentage\<close> returns 57.
\<close>

theorem calculateCompletionPercentage_half_counterexample:
  "map_option totalLectures (courses fortyLecturesStore ''course_123'') = Some 40
   \<and> length (completedLectures twentyThreeCompleted) = 23
   \<and> calculateCompletionPercentage fortyLecturesStore ''course_123'' twentyThreeCompleted = 57
   \<and> Math_round (100 * 23 / 40) = 58"
  by (intro conjI exact_23_of_40)
    (simp_all add: calculateCompletionPercentage_def fortyLecturesStore_def fortyLectures_def
      totalLectures_def twentyThreeCompleted_def percentage_23_of_40)

text \<open>
  C4, amended. For every progress document and course in the store:
  \<open>calculateCompletionPercentage\<close> returns \<open>Math.round((completed / total) * 100)\<close> computed
  in double arithmetic, where \<open>total\<close> is the number of lectures in the chapters the course
  has in the store at the time of the call. It is 0 when the course has no lecture.
  Otherwise (for fewer than \<open>2 ^ 40\<close> completed lectures) it is the exact percentage
  \<open>100 * completed / total\<close> rounded to the nearest integer, except that an exact half may
  be rounded down instead of up. The method of the \<open>CourseProgress\<close> schema returns the
  same number.
\<close>

theorem calculateCompletionPercentage_nearest:
  assumes "courses st courseId = Some course"
  shows "(totalLectures course = 0 \<longrightarrow> calculateCompletionPercentage st courseId this = 0)
    \<and> (0 < totalLectures course \<and> length (completedLectures this) < 2 ^ 40 \<longrightarrow>
         (calculateCompletionPercentage st courseId this
            = Math_round (100 * of_nat (length (completedLectures this)) / of_nat (totalLectures course))
          \<or> of_int (calculateCompletionPercentage st courseId this)
            = 100 * of_nat (length (completedLectures this)) / of_nat (totalLectures course) - (1 / 2 :: rat)))
    \<and> totalLectures course = sum_list (map (\<lambda>chapter. length (chapterContent chapter)) (courseContent course))
    \<and> fst (CourseProgress_calculateCompletionPercentage st courseId this)
         = calculateCompletionPercentage st courseId this"
proof (intro conjI impI)
  assume "totalLectures course = 0"
  with assms show "calculateCompletionPercentage st courseId this = 0"
    by (simp add: calculateCompletionPercentage_def)
next
  assume h: "0 < totalLectures course \<and> length (completedLectures this) < 2 ^ 40"
  then have "calculateCompletionPercentage st courseId this
      = Math_round (js_mul (js_div (of_nat (length (completedLectures this)))
                              (of_nat (totalLectures course))) 100)"
    using assms by (simp add: calculateCompletionPercentage_def)
  moreover from h have "\<bar>of_int (Math_round (js_mul (js_div (of_nat (length (completedLectures this)))
                              (of_nat (totalLectures course))) 100))
        - 100 * of_nat (length (completedLectures this)) / of_nat (totalLectures course)\<bar> \<le> (1 / 2 :: rat)"
    by (intro percentage_nearest) simp_all
  ultimately show "calculateCompletionPercentage st courseId this
            = Math_round (100 * of_nat (length (completedLectures this)) / of_nat (totalLectures course))
          \<or> of_int (calculateCompletionPercentage st courseId this)
            = 100 * of_nat (length (completedLectures this)) / of_nat (totalLectures course) - (1 / 2 :: rat)"
    using nearest_integer_cases by simp
next
  show "totalLectures course = sum_list (map (\<lambda>chapter. length (chapterContent chapter)) (courseContent course))"
    by (rule totalLectures_sum)
next
  show "fst (CourseProgress_calculateCompletionPercentage st courseId this)
         = calculateCompletionPercentage st courseId this"
    using assms
    by (simp add: CourseProgress_calculateCompletionPercentage_def calculateCompletionPercentage_def Let_def)
qed

lemma percentage_1_of_4: "Math_round (js_mul (js_div 1 4) 100) = 25"
  by code_simp

theorem calculateCompletionPercentage_nearest_witness:
  "(calculateCompletionPercentage fortyLecturesStore ''course_123'' twentyThreeCompleted
      = Math_round (100 * 23 / 40)
    \<or> of_int (calculateCompletionPercentage fortyLecturesStore ''course_123'' twentyThreeCompleted)
      = 100 * 23 / 40 - (1 / 2 :: rat))
   \<and> calculateCompletionPercentage mockStore ''course_123'' mockProgress = 25
   \<and> calculateCompletionPercentage
        (mockStore\<lparr>courses := [''course_123'' \<mapsto> mockCourse\<lparr>courseContent := []\<rparr>]\<rparr>)
        ''course_123'' mockProgress = 0"
proof -
  have c: "courses fortyLecturesStore ''course_123'' = Some fortyLectures"
    by (simp add: fortyLecturesStore_def)
  have t: "totalLectures fortyLectures = 40"
    by (simp add: fortyLectures_def totalLectures_def)
  have n: "length (completedLectures twentyThreeCompleted) = 23"
    by (simp add: twentyThreeCompleted_def)
  from calculateCompletionPercentage_nearest [OF c, of twentyThreeCompleted]
  have 1: "calculateCompletionPercentage fortyLecturesStore ''course_123'' twentyThreeCompleted
      = Math_round (100 * 23 / 40)
    \<or> of_int (calculateCompletionPercentage fortyLecturesStore ''course_123'' twentyThreeCompleted)
      = 100 * 23 / 40 - (1 / 2 :: rat)"
    by (simp add: t n)
  have 2: "calculateCompletionPercentage mockStore ''course_123'' mockProgress = 25"
    by (simp add: calculateCompletionPercentage_def mockStore_def mockCourse_def totalLectures_def
        mockProgress_def percentage_1_of_4)
  have e: "totalLectures (mockCourse\<lparr>courseContent := []\<rparr>) = 0"
    by (simp add: totalLectures_def)
  from calculateCompletionPercentage_nearest [of
      "mockStore\<lparr>courses := [''course_123'' \<mapsto> mockCourse\<lparr>courseContent := []\<rparr>]\<rparr>"
      "''course_123''" "mockCourse\<lparr>courseContent := []\<rparr>" mockProgress]
  have 4: "calculateCompletionPercentage
        (mockStore\<lparr>courses := [''course_123'' \<mapsto> mockCourse\<lparr>courseContent := []\<rparr>]\<rparr>)
        ''course_123'' mockProgress = 0"
    by (simp add: e)
  from 1 2 4 show ?thesis by simp
qed

text \<open>The percentage follows the course: one completed lecture is 25 percent of the four
  lectures of the course, and 50 percent once its first chapter, with two lectures, has
  been removed.\<close>

lemma percentage_1_of_2: "Math_round (js_mul (js_div 1 2) 100) = 50"
  by code_simp

lemma calculateCompletionPercentage_after_removal:
  "calculateCompletionPercentage mockStore ''course_123'' mockProgress = 25
   \<and> calculateCompletionPercentage
        (mockStore\<lparr>courses := [''course_123'' \<mapsto>
           mockCourse\<lparr>courseContent := tl (courseContent mockCourse)\<rparr>]\<rparr>)
        ''course_123'' mockProgress = 50"
  by (simp add: calculateCompletionPercentage_def mockStore_def mockCourse_def totalLectures_def
      mockProgress_def percentage_1_of_4 percentage_1_of_2)

lemma calculateCompletionPercentage_no_course:
  "courses st courseId = None \<Longrightarrow> calculateCompletionPercentage st courseId this = 0"
  by (simp add: calculateCompletionPercentage_def)

section \<open>Purchase amount\<close>

lemma toFixed2_nearest: "\<bar>fixed2_value (toFixed2 x) - x\<bar> \<le> 1 / 200"
proof (cases "x < 0")
  case True
  define n where "n = \<lfloor>- x * 100 + 1 / 2\<rfloor>"
  have "0 \<le> n" unfolding n_def using True by (simp add: le_floor_iff)
  then have v: "fixed2_value (toFixed2 x) = - (of_int n / 100)"
    using True by (simp add: fixed2_value_def toFixed2_def n_def)
  have "of_int n \<le> - x * 100 + 1 / 2" "- x * 100 + 1 / 2 < of_int n + 1"
    unfolding n_def by linarith+
  then show ?thesis unfolding v by linarith
next
  case False
  define n where "n = \<lfloor>x * 100 + 1 / 2\<rfloor>"
  have "0 \<le> n" unfolding n_def using False by (simp add: le_floor_iff)
  then have v: "fixed2_value (toFixed2 x) = of_int n / 100"
    using False by (simp add: fixed2_value_def toFixed2_def n_def)
  have "of_int n \<le> x * 100 + 1 / 2" "x * 100 + 1 / 2 < of_int n + 1"
    unfolding n_def by linarith+
  then show ?thesis unfolding v by linarith
qed

text \<open>The double the code computes is within \<open>price / 2 ^ 50\<close> of the exact discounted
  price.\<close>

lemma discounted_price_error:
  assumes p: "0 \<le> p" and d: "0 \<le> d" "d \<le> 100"
  shows "\<bar>js_sub p (js_div (js_mul d p) 100) - (p - p * d / 100)\<bar> \<le> p / 2 ^ 50"
proof -
  define w where "w = d * p"
  define m where "m = fl w"
  define q where "q = fl (m / 100)"
  define x where "x = fl (p - q)"
  have w0: "0 \<le> w" using p d by (simp add: w_def)
  have w100: "w \<le> 100 * p" unfolding w_def using p d by (intro mult_right_mono) simp_all
  have m0: "0 \<le> m" unfolding m_def using w0 by (rule fl_nonneg)
  have "\<bar>m - w\<bar> \<le> w / 2 ^ 53"
    using fl_relative_error [of w] w0 by (simp add: m_def)
  then have m1: "m - w \<le> w / 2 ^ 53" and m2: "w - m \<le> w / 2 ^ 53" by linarith+
  have q0: "0 \<le> q" unfolding q_def using m0 by (intro fl_nonneg) simp
  have "\<bar>q - m / 100\<bar> \<le> (m / 100) / 2 ^ 53"
    using fl_relative_error [of "m / 100"] m0 by (simp add: q_def)
  then have q1: "q - m / 100 \<le> (m / 100) / 2 ^ 53" and q2: "m / 100 - q \<le> (m / 100) / 2 ^ 53"
    by linarith+
  have mb: "m \<le> 101 * p" using m1 w100 w0 p by simp
  have qb: "q \<le> 2 * p" using q1 mb m0 p by simp
  have "\<bar>x - (p - q)\<bar> \<le> \<bar>p - q\<bar> / 2 ^ 53"
    using fl_relative_error [of "p - q"] by (simp add: x_def)
  moreover have "\<bar>p - q\<bar> \<le> 2 * p" using p q0 qb by linarith
  then have "\<bar>p - q\<bar> / 2 ^ 53 \<le> 2 * p / 2 ^ 53" by (intro divide_right_mono) simp_all
  ultimately have x1: "\<bar>x - (p - q)\<bar> \<le> 2 * p / 2 ^ 53" by (rule order_trans)
  have e1: "q - w / 100 \<le> 3 * p / 2 ^ 53" using q1 m1 mb w100 p by simp
  have e2: "w / 100 - q \<le> 3 * p / 2 ^ 53" using q2 m2 mb w100 p by simp
  have "\<bar>x - (p - w / 100)\<bar> \<le> 5 * p / 2 ^ 53" using x1 e1 e2 by linarith
  also have "\<dots> \<le> p / 2 ^ 50" using p by simp
  finally show ?thesis
    by (simp add: x_def q_def m_def w_def js_sub_def js_div_def js_mul_def mult.commute)
qed

text \<open>What \<open>purchaseCourse\<close> does when the course and the user exist.\<close>

lemma purchaseCourse_present:
  assumes "courses st courseId = Some courseData" and "users st userId = Some userData"
  shows "purchaseCourse ext userId courseId origin st =
    (let purchaseData =
           \<lparr>purchase_courseId = courseId, purchase_userId = userId,
            amount = toFixed2 (js_sub (coursePrice courseData)
                       (js_div (js_mul (discount courseData) (coursePrice courseData)) 100)),
            status = Pending\<rparr>;
         request =
           \<lparr>success_url = origin @ ''/loading/my-enrollments'', cancel_url = origin @ ''/'',
            currency = ''usd'', product_name = courseTitle courseData,
            unit_amount = js_mul (of_int (Math_floor (toNumber (amount purchaseData)))) 100,
            quantity = 1, mode = ''payment'', metadata_purchaseId = length (purchases st)\<rparr>
     in (case sessions_create ext request of
           Inl err \<Rightarrow> Json_failure err
         | Inr url \<Rightarrow> Json_session_url url,
         st\<lparr>purchases := purchases st @ [purchaseData],
            oplog := oplog st @ [Created_purchase (length (purchases st))],
            checkout_requests := checkout_requests st @ [request]\<rparr>))"
  using assms
  by (simp add: purchaseCourse_def Purchase_create_def Let_def split: sum.splits)

text \<open>The doubles on the way from the price 99.99 and the discount 20 to the amount
  79.99, and from the price 19.50 and the discount 15 to the amount 16.57: the computed
  difference is the double just below 16.575.\<close>

lemma string_79_99: "fixed2_string (Fixed2 False 7999) = ''79.99''"
  by (simp add: fixed2_string_def digits.simps digit_def)

lemma price_99_99: "fl (9999 / 100) = 7036170730324623 / 2 ^ 46"
  by code_simp

lemma product_99_99: "js_mul 20 (7036170730324623 / 2 ^ 46) = 8795213412905779 / 2 ^ 42"
  by code_simp

lemma quotient_99_99: "js_div (8795213412905779 / 2 ^ 42) 100 = 5628936584259699 / 2 ^ 48"
  by code_simp

lemma difference_99_99:
  "js_sub (7036170730324623 / 2 ^ 46) (5628936584259699 / 2 ^ 48) = 2814468292129849 / 2 ^ 45"
  by code_simp

lemma toFixed_99_99: "toFixed2 (2814468292129849 / 2 ^ 45) = Fixed2 False 7999"
  by code_simp

lemma amount_99_99_discount_20:
  "toFixed2 (js_sub (fl (9999 / 100)) (js_div (js_mul 20 (fl (9999 / 100))) 100)) = Fixed2 False 7999"
  by (simp only: price_99_99 product_99_99 quotient_99_99 difference_99_99 toFixed_99_99)

lemma product_19_50: "js_mul 15 (39 / 2) = 585 / 2"
  by code_simp

lemma quotient_19_50: "js_div (585 / 2) 100 = 3293257227514675 / 2 ^ 50"
  by code_simp

lemma difference_19_50: "js_sub (39 / 2) (3293257227514675 / 2 ^ 50) = 4665447738979123 / 2 ^ 48"
  by code_simp

lemma toFixed_19_50: "toFixed2 (4665447738979123 / 2 ^ 48) = Fixed2 False 1657"
  by code_simp

lemma amount_19_50_discount_15:
  "toFixed2 (js_sub (39 / 2) (js_div (js_mul 15 (39 / 2)) 100)) = Fixed2 False 1657"
  by (simp only: product_19_50 quotient_19_50 difference_19_50 toFixed_19_50)

lemma exact_19_50_discount_15: "toFixed2 (39 / 2 - 39 / 2 * 15 / 100) = Fixed2 False 1658"
  by code_simp

text \<open>
  C5, as stated, fails. A course costs 19.50 with a discount of 15 percent: the exact
  discounted price is 16.575, whose two-decimal rounding is 16.58, and the purchase is
  created with the amount 16.57.
\<close>

theorem purchaseCourse_amount_counterexample:
  "map amount (purchases (snd (purchaseCourse mockStripe ''user_123'' ''course_123''
      ''http://localhost:3000'' discountStore))) = [Fixed2 False 1657]
   \<and> toFixed2 (39 / 2 - 39 / 2 * 15 / 100) = Fixed2 False 1658"
proof -
  have c: "courses discountStore ''course_123'' = Some (mockCourse\<lparr>coursePrice := 39 / 2, discount := 15\<rparr>)"
    by (simp add: discountStore_def)
  have u: "users discountStore ''user_123'' = Some mockUser"
    by (simp add: discountStore_def mockStore_def)
  have "map amount (purchases (snd (purchaseCourse mockStripe ''user_123'' ''course_123''
      ''http://localhost:3000'' discountStore))) = [Fixed2 False 1657]"
    unfolding purchaseCourse_present [OF c u]
    by (simp add: Let_def amount_19_50_discount_15) (simp add: discountStore_def)
  with exact_19_50_discount_15 show ?thesis by blast
qed

text \<open>
  C5, amended. Take a price that is 0 or lies between \<open>2 ^ -500\<close> and \<open>10 ^ 18\<close> and a
  discount that is 0 or lies between \<open>2 ^ -500\<close> and 100: there no product, quotient or
  difference of the computation overflows or underflows, and the result is below
  \<open>10 ^ 21\<close>, where \<open>toFixed\<close> writes plain decimal notation. For every user and course
  present in the store with such a price and discount, \<open>purchaseCourse\<close> creates the
  purchase with status pending and with the amount
  \<open>(coursePrice - discount * coursePrice / 100).toFixed(2)\<close>, computed in double
  arithmetic: the amount is within half a cent of the computed double and within half a
  cent plus \<open>price / 2 ^ 50\<close> of the exact \<open>price - price * discount / 100\<close>. So it is the
  two-decimal rounding of the exact value unless that value is within \<open>price / 2 ^ 50\<close>
  of a half cent. The price 99.99 with the discount 20 gives the amount 79.99.
\<close>

theorem purchaseCourse_amount:
  assumes "courses st courseId = Some courseData" and "users st userId = Some userData"
    and "coursePrice courseData = 0
         \<or> (1 / 2 ^ 500 \<le> coursePrice courseData \<and> coursePrice courseData \<le> 10 ^ 18)"
    and "discount courseData = 0
         \<or> (1 / 2 ^ 500 \<le> discount courseData \<and> discount courseData \<le> 100)"
  shows "purchases (snd (purchaseCourse ext userId courseId origin st)) =
      purchases st @
        [\<lparr>purchase_courseId = courseId, purchase_userId = userId,
          amount = toFixed2 (js_sub (coursePrice courseData)
                      (js_div (js_mul (discount courseData) (coursePrice courseData)) 100)),
          status = Pending\<rparr>]
    \<and> \<bar>fixed2_value (toFixed2 (js_sub (coursePrice courseData)
                      (js_div (js_mul (discount courseData) (coursePrice courseData)) 100)))
        - js_sub (coursePrice courseData)
            (js_div (js_mul (discount courseData) (coursePrice courseData)) 100)\<bar> \<le> 1 / 200
    \<and> \<bar>fixed2_value (toFixed2 (js_sub (coursePrice courseData)
                      (js_div (js_mul (discount courseData) (coursePrice courseData)) 100)))
        - (coursePrice courseData - coursePrice courseData * discount courseData / 100)\<bar>
         \<le> 1 / 200 + coursePrice courseData / 2 ^ 50
    \<and> fixed2_string (toFixed2 (js_sub (fl (9999 / 100)) (js_div (js_mul 20 (fl (9999 / 100))) 100)))
        = ''79.99''"
proof (intro conjI)
  show "purchases (snd (purchaseCourse ext userId courseId origin st)) =
      purchases st @
        [\<lparr>purchase_courseId = courseId, purchase_userId = userId,
          amount = toFixed2 (js_sub (coursePrice courseData)
                      (js_div (js_mul (discount courseData) (coursePrice courseData)) 100)),
          status = Pending\<rparr>]"
    unfolding purchaseCourse_present [OF assms(1,2)] by (simp add: Let_def)
next
  show "\<bar>fixed2_value (toFixed2 (js_sub (coursePrice courseData)
                      (js_div (js_mul (discount courseData) (coursePrice courseData)) 100)))
        - js_sub (coursePrice courseData)
            (js_div (js_mul (discount courseData) (coursePrice courseData)) 100)\<bar> \<le> 1 / 200"
    by (rule toFixed2_nearest)
next
  have "0 \<le> coursePrice courseData" using assms(3)
  proof
    assume "coursePrice courseData = 0"
    then show ?thesis by simp
  next
    assume "1 / 2 ^ 500 \<le> coursePrice courseData \<and> coursePrice courseData \<le> 10 ^ 18"
    then have "1 / 2 ^ 500 \<le> coursePrice courseData" by simp
    moreover have "(0::rat) \<le> 1 / 2 ^ 500" by simp
    ultimately show ?thesis by (rule order_trans [rotated])
  qed
  moreover have "0 \<le> discount courseData \<and> discount courseData \<le> 100" using assms(4)
  proof
    assume "discount courseData = 0"
    then show ?thesis by simp
  next
    assume h: "1 / 2 ^ 500 \<le> discount courseData \<and> discount courseData \<le> 100"
    then have "1 / 2 ^ 500 \<le> discount courseData" by simp
    moreover have "(0::rat) \<le> 1 / 2 ^ 500" by simp
    ultimately have "0 \<le> discount courseData" by (rule order_trans [rotated])
    with h show ?thesis by simp
  qed
  ultimately have "\<bar>js_sub (coursePrice courseData)
            (js_div (js_mul (discount courseData) (coursePrice courseData)) 100)
        - (coursePrice courseData - coursePrice courseData * discount courseData / 100)\<bar>
        \<le> coursePrice courseData / 2 ^ 50"
    by (intro discounted_price_error) simp_all
  with toFixed2_nearest [of "js_sub (coursePrice courseData)
            (js_div (js_mul (discount courseData) (coursePrice courseData)) 100)"]
  show "\<bar>fixed2_value (toFixed2 (js_sub (coursePrice courseData)
                      (js_div (js_mul (discount courseData) (coursePrice courseData)) 100)))
          - (coursePrice courseData - coursePrice courseData * discount courseData / 100)\<bar>
           \<le> 1 / 200 + coursePrice courseData / 2 ^ 50"
    by linarith
next
  show "fixed2_string (toFixed2 (js_sub (fl (9999 / 100)) (js_div (js_mul 20 (fl (9999 / 100))) 100)))
        = ''79.99''"
    by (simp only: amount_99_99_discount_20 string_79_99)
qed

theorem purchaseCourse_amount_witness:
  "purchases (snd (purchaseCourse mockStripe ''user_123'' ''course_123'' ''http://localhost:3000'' mockStore))
     = [mockPurchase,
        \<lparr>purchase_courseId = ''course_123'', purchase_userId = ''user_123'',
         amount = Fixed2 False 7999, status = Pending\<rparr>]
   \<and> fixed2_string (Fixed2 False 7999) = ''79.99''"
proof -
  have c: "courses mockStore ''course_123'' = Some mockCourse"
    by (simp add: mockStore_def)
  have u: "users mockStore ''user_123'' = Some mockUser"
    by (simp add: mockStore_def)
  have p: "coursePrice mockCourse = fl (9999 / 100)" "discount mockCourse = 20"
    by (simp_all add: mockCourse_def)
  have s: "purchases mockStore = [mockPurchase]"
    by (simp add: mockStore_def)
  have pr: "coursePrice mockCourse = 0
         \<or> (1 / 2 ^ 500 \<le> coursePrice mockCourse \<and> coursePrice mockCourse \<le> 10 ^ 18)"
    unfolding p price_99_99 by simp
  have di: "discount mockCourse = 0
         \<or> (1 / 2 ^ 500 \<le> discount mockCourse \<and> discount mockCourse \<le> 100)"
    unfolding p by simp
  from purchaseCourse_amount [OF c u pr di, of mockStripe "''http://localhost:3000''"]
  show ?thesis
    by (simp only: p s amount_99_99_discount_20 string_79_99) simp
qed

section \<open>Checkout amount\<close>

lemma unit_amount_floor:
  assumes "n mod 100 \<noteq> 0" and "n < 10 ^ 15"
  shows "js_mul (of_int (Math_floor (toNumber (Fixed2 False n)))) 100 = of_nat (100 * (n div 100))"
proof -
  have "Math_floor (toNumber (Fixed2 False n)) = int (n div 100)"
    using floor_fl_hundredths [OF assms] by (simp add: Math_floor_def toNumber_def)
  moreover have "fl (of_int (int (n div 100) * 100)) = of_int (int (n div 100) * 100)"
  proof (rule fl_of_int)
    have "n div 100 * 100 \<le> n" by simp
    then have "int (n div 100 * 100) \<le> int n" by (simp only: of_nat_le_iff)
    then have "int (n div 100) * 100 \<le> int n" by simp
    also have "\<dots> < 10 ^ 15" using assms(2) by (metis of_nat_less_iff of_nat_numeral of_nat_power)
    also have "\<dots> < (2::int) ^ 53" by simp
    finally show "\<bar>int (n div 100) * 100\<bar> < 2 ^ 53" by simp
  qed
  ultimately show ?thesis by (simp add: js_mul_def)
qed

text \<open>
  C6. For every user and course present in the store, the checkout session that
  \<open>purchaseCourse\<close> requests carries the new purchase's id and the unit amount
  \<open>Math.floor(amount) * 100\<close> of the amount it has just recorded. When the recorded amount is
  not negative, has cents other than 00 and is below \<open>10 ^ 13\<close> (\<open>10 ^ 15\<close> cents), that
  unit amount is the whole dollars of the amount in cents, which is strictly less than
  the recorded amount in cents: 7900 for 79.99.
\<close>

theorem purchaseCourse_unit_amount:
  assumes "courses st courseId = Some courseData" and "users st userId = Some userData"
  shows "metadata_purchaseId (last (checkout_requests (snd (purchaseCourse ext userId courseId origin st))))
      = length (purchases st)
    \<and> unit_amount (last (checkout_requests (snd (purchaseCourse ext userId courseId origin st))))
      = js_mul (of_int (Math_floor (toNumber
          (amount (last (purchases (snd (purchaseCourse ext userId courseId origin st)))))))) 100
    \<and> (amount (last (purchases (snd (purchaseCourse ext userId courseId origin st)))) = Fixed2 False n
        \<and> n mod 100 \<noteq> 0 \<and> n < 10 ^ 15 \<longrightarrow>
          unit_amount (last (checkout_requests (snd (purchaseCourse ext userId courseId origin st))))
            = of_nat (100 * (n div 100))
          \<and> 100 * (n div 100) < n)"
proof (intro conjI impI)
  show "metadata_purchaseId (last (checkout_requests (snd (purchaseCourse ext userId courseId origin st))))
      = length (purchases st)"
    unfolding purchaseCourse_present [OF assms] by (simp add: Let_def)
next
  show u: "unit_amount (last (checkout_requests (snd (purchaseCourse ext userId courseId origin st))))
      = js_mul (of_int (Math_floor (toNumber
          (amount (last (purchases (snd (purchaseCourse ext userId courseId origin st)))))))) 100"
    unfolding purchaseCourse_present [OF assms] by (simp add: Let_def)
  assume h: "amount (last (purchases (snd (purchaseCourse ext userId courseId origin st)))) = Fixed2 False n
        \<and> n mod 100 \<noteq> 0 \<and> n < 10 ^ 15"
  with u unit_amount_floor [of n]
  show "unit_amount (last (checkout_requests (snd (purchaseCourse ext userId courseId origin st))))
            = of_nat (100 * (n div 100))"
    by simp
  from h have "n mod 100 \<noteq> 0" by simp
  then show "100 * (n div 100) < n"
    by (metis mult_div_mod_eq less_add_same_cancel1 neq0_conv)
qed

theorem purchaseCourse_unit_amount_witness:
  "amount (last (purchases (snd (purchaseCourse mockStripe ''user_123'' ''course_123''
      ''http://localhost:3000'' mockStore)))) = Fixed2 False 7999
   \<and> unit_amount (last (checkout_requests (snd (purchaseCourse mockStripe ''user_123'' ''course_123''
      ''http://localhost:3000'' mockStore)))) = 7900
   \<and> metadata_purchaseId (last (checkout_requests (snd (purchaseCourse mockStripe ''user_123''
      ''course_123'' ''http://localhost:3000'' mockStore)))) = 1
   \<and> (7900::nat) < 7999"
proof -
  have c: "courses mockStore ''course_123'' = Some mockCourse"
    by (simp add: mockStore_def)
  have u: "users mockStore ''user_123'' = Some mockUser"
    by (simp add: mockStore_def)
  have p: "coursePrice mockCourse = fl (9999 / 100)" "discount mockCourse = 20"
    by (simp_all add: mockCourse_def)
  have a: "amount (last (purchases (snd (purchaseCourse mockStripe ''user_123'' ''course_123''
      ''http://localhost:3000'' mockStore)))) = Fixed2 False 7999"
    unfolding purchaseCourse_present [OF c u]
    by (simp add: Let_def p amount_99_99_discount_20)
  have s: "length (purchases mockStore) = 1"
    by (simp add: mockStore_def)
  from purchaseCourse_unit_amount [OF c u, of mockStripe "''http://localhost:3000''" 7999] a s
  show ?thesis by simp
qed

section \<open>Marking a lecture complete\<close>

lemma updateUserCourseProgress_distinct:
  assumes "\<forall>k q. courseProgress st k = Some q \<longrightarrow> distinct (lectureCompleted q)"
    and "courseProgress (snd (updateUserCourseProgress userId courseId lecId st)) k = Some q"
  shows "distinct (lectureCompleted q)"
  using assms
  by (cases k) (auto simp add: updateUserCourseProgress_def split: option.splits if_splits)

lemma updateUserCourseProgress_calls_distinct:
  "\<forall>k q. courseProgress st k = Some q \<longrightarrow> distinct (lectureCompleted q) \<Longrightarrow>
   \<forall>k q. courseProgress (updateUserCourseProgress_calls calls st) k = Some q \<longrightarrow> distinct (lectureCompleted q)"
proof (induction calls arbitrary: st)
  case Nil
  then show ?case by simp
next
  case (Cons call calls)
  obtain userId courseId lecId where call: "call = (userId, courseId, lecId)"
    by (cases call) auto
  have "\<forall>k q. courseProgress (snd (updateUserCourseProgress userId courseId lecId st)) k = Some q
          \<longrightarrow> distinct (lectureCompleted q)"
    using Cons.prems updateUserCourseProgress_distinct by blast
  from Cons.IH [OF this] show ?case by (simp add: call)
qed

text \<open>\<open>markLectureAsComplete\<close> of the progress controller does not repeat a lecture
  either; it answers \<open>Lecture marked as complete\<close> in every case and stores the
  percentage it has just computed.\<close>

lemma progressController_markLectureAsComplete_already:
  assumes "progressDocs st (userId, courseId) = Some p" and "lecId \<in> set (completedLectures p)"
  shows "progressController_markLectureAsComplete now userId courseId lecId st =
     (Json_marked ''Lecture marked as complete'' (completedLectures p)
        (calculateCompletionPercentage st courseId p),
      st\<lparr>progressDocs := (progressDocs st)((userId, courseId) \<mapsto>
             p\<lparr>completionPercentage := calculateCompletionPercentage st courseId p\<rparr>),
         oplog := oplog st @ [Updated_progress (userId, courseId)]\<rparr>)"
  using assms by (simp add: progressController_markLectureAsComplete_def Let_def)

lemma progressController_markLectureAsComplete_distinct:
  assumes "\<forall>k q. progressDocs st k = Some q \<longrightarrow> distinct (completedLectures q)"
    and "progressDocs (snd (progressController_markLectureAsComplete now userId courseId lecId st)) k = Some q"
  shows "distinct (completedLectures q)"
  using assms
  by (cases k)
    (auto simp add: progressController_markLectureAsComplete_def Let_def split: option.splits if_splits)

lemma progressController_markLectureAsComplete_calls_distinct:
  "\<forall>k q. progressDocs st k = Some q \<longrightarrow> distinct (completedLectures q) \<Longrightarrow>
   \<forall>k q. progressDocs (progressController_markLectureAsComplete_calls calls st) k = Some q
     \<longrightarrow> distinct (completedLectures q)"
proof (induction calls arbitrary: st)
  case Nil
  then show ?case by simp
next
  case (Cons call calls)
  obtain now userId courseId lecId where call: "call = (now, userId, courseId, lecId)"
    by (cases call) auto
  have "\<forall>k q. progressDocs (snd (progressController_markLectureAsComplete now userId courseId lecId st)) k
          = Some q \<longrightarrow> distinct (completedLectures q)"
    using Cons.prems progressController_markLectureAsComplete_distinct by blast
  from Cons.IH [OF this] show ?case by (simp add: call)
qed

lemma percentage_mockProgress:
  "calculateCompletionPercentage markedStore ''course_123'' mockProgress = 25"
  by (simp add: calculateCompletionPercentage_def markedStore_def mockStore_def mockCourse_def
      totalLectures_def mockProgress_def percentage_1_of_4)

text \<open>
  C3, as stated, fails. Lecture 1 is in the completed list of the progress document of
  \<open>user_123\<close> for \<open>course_123\<close>, whose stored percentage is 0. Marking it complete again
  through the progress controller (the route \<open>/mark-complete\<close>) answers
  \<open>Lecture marked as complete\<close>, not an already-completed result, and writes the document:
  an update is issued and the stored percentage becomes 25. The list itself stays as it
  was.
\<close>

theorem progressController_markLectureAsComplete_counterexample:
  "map_option completedLectures (progressDocs markedStore (''user_123'', ''course_123'')) = Some [''lecture_1'']
   \<and> map_option completionPercentage (progressDocs markedStore (''user_123'', ''course_123'')) = Some 0
   \<and> oplog markedStore = []
   \<and> fst (progressController_markLectureAsComplete 1 ''user_123'' ''course_123'' ''lecture_1'' markedStore)
       = Json_marked ''Lecture marked as complete'' [''lecture_1''] 25
   \<and> oplog (snd (progressController_markLectureAsComplete 1 ''user_123'' ''course_123'' ''lecture_1''
        markedStore)) = [Updated_progress (''user_123'', ''course_123'')]
   \<and> map_option completionPercentage
        (progressDocs (snd (progressController_markLectureAsComplete 1 ''user_123'' ''course_123''
           ''lecture_1'' markedStore)) (''user_123'', ''course_123'')) = Some 25
   \<and> map_option completedLectures
        (progressDocs (snd (progressController_markLectureAsComplete 1 ''user_123'' ''course_123''
           ''lecture_1'' markedStore)) (''user_123'', ''course_123'')) = Some [''lecture_1'']"
proof -
  have p: "progressDocs markedStore (''user_123'', ''course_123'') = Some mockProgress"
    by (simp add: markedStore_def)
  have l: "''lecture_1'' \<in> set (completedLectures mockProgress)"
    by (simp add: mockProgress_def)
  have o: "oplog markedStore = []"
    by (simp add: markedStore_def mockStore_def)
  show ?thesis
    unfolding progressController_markLectureAsComplete_already [OF p l] percentage_mockProgress
    by (simp add: p o) (simp add: mockProgress_def)
qed

text \<open>
  C3, amended. When the lecture is already in the completed list of the user's progress
  document for the course: \<open>updateUserCourseProgress\<close> answers \<open>Lecture Already Completed\<close>
  and the store, its log of saves included, is exactly what it was; the model method
  \<open>markLectureAsComplete\<close> returns \<open>false\<close> and leaves the document as it is;
  \<open>markLectureAsComplete\<close> of the progress controller does not add the lecture again and
  keeps the time of last access, but it answers \<open>Lecture marked as complete\<close> with the
  list and the percentage, and it writes the document with the percentage it has just
  computed. With all three, if no document holds a lecture twice, none does after any
  sequence of calls (for any users, courses and lectures).
\<close>

theorem markLectureAsComplete_no_duplicates:
  "(courseProgress st (userId, courseId) = Some progressData \<and> lecId \<in> set (lectureCompleted progressData)
      \<longrightarrow> updateUserCourseProgress userId courseId lecId st = (Json_message ''Lecture Already Completed'', st))
   \<and> ((\<forall>k q. courseProgress st k = Some q \<longrightarrow> distinct (lectureCompleted q))
      \<longrightarrow> (\<forall>k q. courseProgress (updateUserCourseProgress_calls calls st) k = Some q
             \<longrightarrow> distinct (lectureCompleted q)))
   \<and> (lecId \<in> set (completedLectures this) \<longrightarrow> markLectureAsComplete now lecId this = (False, this))
   \<and> (distinct (completedLectures this)
      \<longrightarrow> distinct (completedLectures (snd (markLectureAsComplete now lecId this))))
   \<and> (progressDocs st (userId, courseId) = Some p \<and> lecId \<in> set (completedLectures p)
      \<longrightarrow> progressController_markLectureAsComplete now userId courseId lecId st =
           (Json_marked ''Lecture marked as complete'' (completedLectures p)
              (calculateCompletionPercentage st courseId p),
            st\<lparr>progressDocs := (progressDocs st)((userId, courseId) \<mapsto>
                   p\<lparr>completionPercentage := calculateCompletionPercentage st courseId p\<rparr>),
               oplog := oplog st @ [Updated_progress (userId, courseId)]\<rparr>))
   \<and> ((\<forall>k q. progressDocs st k = Some q \<longrightarrow> distinct (completedLectures q))
      \<longrightarrow> (\<forall>k q. progressDocs (progressController_markLectureAsComplete_calls marks st) k = Some q
             \<longrightarrow> distinct (completedLectures q)))"
proof (intro conjI impI)
  assume "courseProgress st (userId, courseId) = Some progressData \<and> lecId \<in> set (lectureCompleted progressData)"
  then show "updateUserCourseProgress userId courseId lecId st = (Json_message ''Lecture Already Completed'', st)"
    by (simp add: updateUserCourseProgress_def)
next
  assume "\<forall>k q. courseProgress st k = Some q \<longrightarrow> distinct (lectureCompleted q)"
  then show "\<forall>k q. courseProgress (updateUserCourseProgress_calls calls st) k = Some q
             \<longrightarrow> distinct (lectureCompleted q)"
    by (rule updateUserCourseProgress_calls_distinct)
next
  assume "lecId \<in> set (completedLectures this)"
  then show "markLectureAsComplete now lecId this = (False, this)"
    by (simp add: markLectureAsComplete_def)
next
  assume "distinct (completedLectures this)"
  then show "distinct (completedLectures (snd (markLectureAsComplete now lecId this)))"
    by (simp add: markLectureAsComplete_def)
next
  assume "progressDocs st (userId, courseId) = Some p \<and> lecId \<in> set (completedLectures p)"
  then show "progressController_markLectureAsComplete now userId courseId lecId st =
           (Json_marked ''Lecture marked as complete'' (completedLectures p)
              (calculateCompletionPercentage st courseId p),
            st\<lparr>progressDocs := (progressDocs st)((userId, courseId) \<mapsto>
                   p\<lparr>completionPercentage := calculateCompletionPercentage st courseId p\<rparr>),
               oplog := oplog st @ [Updated_progress (userId, courseId)]\<rparr>)"
    by (intro progressController_markLectureAsComplete_already) simp_all
next
  assume "\<forall>k q. progressDocs st k = Some q \<longrightarrow> distinct (completedLectures q)"
  then show "\<forall>k q. progressDocs (progressController_markLectureAsComplete_calls marks st) k = Some q
             \<longrightarrow> distinct (completedLectures q)"
    by (rule progressController_markLectureAsComplete_calls_distinct)
qed

theorem markLectureAsComplete_no_duplicates_witness:
  "updateUserCourseProgress ''user_123'' ''course_123'' ''lecture_456'' progressStore
     = (Json_message ''Lecture Already Completed'', progressStore)
   \<and> map_option lectureCompleted
        (courseProgress
           (updateUserCourseProgress_calls
              [(''user_123'', ''course_123'', ''lecture_456''), (''user_123'', ''course_123'', ''lecture_789''),
               (''user_123'', ''course_123'', ''lecture_789'')] progressStore)
           (''user_123'', ''course_123''))
       = Some [''lecture_456'', ''lecture_789'']
   \<and> markLectureAsComplete 1 ''lecture_1'' mockProgress = (False, mockProgress)
   \<and> distinct (completedLectures (snd (markLectureAsComplete 1 ''lecture_2'' mockProgress)))
   \<and> fst (progressController_markLectureAsComplete 1 ''user_123'' ''course_123'' ''lecture_1'' markedStore)
       = Json_marked ''Lecture marked as complete'' [''lecture_1''] 25
   \<and> map_option completedLectures
        (progressDocs
           (progressController_markLectureAsComplete_calls
              [(1, ''user_123'', ''course_123'', ''lecture_1''), (2, ''user_123'', ''course_123'', ''lecture_2''),
               (3, ''user_123'', ''course_123'', ''lecture_2'')] markedStore)
           (''user_123'', ''course_123''))
       = Some [''lecture_1'', ''lecture_2'']"
proof -
  note a = markLectureAsComplete_no_duplicates [of progressStore "''user_123''" "''course_123''"
      "\<lparr>lectureCompleted = [''lecture_456'']\<rparr>" "''lecture_456''"
      "[(''user_123'', ''course_123'', ''lecture_456''), (''user_123'', ''course_123'', ''lecture_789''),
        (''user_123'', ''course_123'', ''lecture_789'')]" mockProgress 1 mockProgress "[]"]
  note b = markLectureAsComplete_no_duplicates [of markedStore "''user_123''" "''course_123''"
      "\<lparr>lectureCompleted = []\<rparr>" "''lecture_1''" "[]" mockProgress 1 mockProgress
      "[(1, ''user_123'', ''course_123'', ''lecture_1''), (2, ''user_123'', ''course_123'', ''lecture_2''),
        (3, ''user_123'', ''course_123'', ''lecture_2'')]"]
  note c = markLectureAsComplete_no_duplicates [of markedStore "''user_123''" "''course_123''"
      "\<lparr>lectureCompleted = []\<rparr>" "''lecture_2''" "[]" mockProgress 1 mockProgress "[]"]
  from a have 1: "updateUserCourseProgress ''user_123'' ''course_123'' ''lecture_456'' progressStore
     = (Json_message ''Lecture Already Completed'', progressStore)"
    by (simp add: progressStore_def)
  have 2: "map_option lectureCompleted
        (courseProgress
           (updateUserCourseProgress_calls
              [(''user_123'', ''course_123'', ''lecture_456''), (''user_123'', ''course_123'', ''lecture_789''),
               (''user_123'', ''course_123'', ''lecture_789'')] progressStore)
           (''user_123'', ''course_123''))
       = Some [''lecture_456'', ''lecture_789'']"
    by (simp add: progressStore_def updateUserCourseProgress_def)
  from b have 3: "markLectureAsComplete 1 ''lecture_1'' mockProgress = (False, mockProgress)"
    by (simp add: mockProgress_def)
  from c have 4: "distinct (completedLectures (snd (markLectureAsComplete 1 ''lecture_2'' mockProgress)))"
    by (simp add: mockProgress_def)
  have p: "progressDocs markedStore (''user_123'', ''course_123'') = Some mockProgress"
    by (simp add: markedStore_def)
  from b p have 5: "fst (progressController_markLectureAsComplete 1 ''user_123'' ''course_123''
        ''lecture_1'' markedStore) = Json_marked ''Lecture marked as complete'' [''lecture_1''] 25"
    by (simp add: percentage_mockProgress) (simp add: mockProgress_def)
  have 6: "map_option completedLectures
        (progressDocs
           (progressController_markLectureAsComplete_calls
              [(1, ''user_123'', ''course_123'', ''lecture_1''), (2, ''user_123'', ''course_123'', ''lecture_2''),
               (3, ''user_123'', ''course_123'', ''lecture_2'')] markedStore)
           (''user_123'', ''course_123''))
       = Some [''lecture_1'', ''lecture_2'']"
    by (simp add: progressController_markLectureAsComplete_def Let_def markedStore_def mockProgress_def)
  from 1 2 3 4 5 6 show ?thesis by simp
qed

section \<open>Adding a lecture\<close>

lemma findIndex_Some:
  "findIndex P xs = Some i \<Longrightarrow> i < length xs \<and> P (xs ! i) \<and> (\<forall>j<i. \<not> P (xs ! j))"
proof (induction xs arbitrary: i)
  case Nil
  then show ?case by simp
next
  case (Cons x xs)
  show ?case
  proof (cases "P x")
    case True
    with Cons.prems show ?thesis by simp
  next
    case False
    with Cons.prems obtain k where k: "findIndex P xs = Some k" "i = Suc k" by auto
    from Cons.IH [OF k(1)] False k(2) show ?thesis
      by (auto simp add: nth_Cons split: nat.splits)
  qed
qed

lemma findIndex_None: "findIndex P xs = None \<longleftrightarrow> (\<forall>x \<in> set xs. \<not> P x)"
  by (induction xs) auto

lemma foldl_max_Max: "foldl max (x::rat) xs = Max (set (x # xs))"
proof -
  have "(\<lambda>a s. max s a) = (max :: rat \<Rightarrow> rat \<Rightarrow> rat)"
    by (intro ext) (rule max.commute)
  then show ?thesis
    by (simp add: Max.set_eq_fold foldl_conv_fold del: set_simps)
qed

lemma isValidVideoUrl_empty: "\<not> isValidVideoUrl []"
  by (simp add: isValidVideoUrl_def host_regex_test_def)

text \<open>The dot of the two patterns matches no line terminator: a url that ends in a line
  feed, or in the line separator U+2028, does not pass.\<close>

lemma isValidVideoUrl_line_terminator:
  "\<not> isValidVideoUrl (''https://vimeo.com/1'' @ [CHR 0x0A])
   \<and> \<not> isValidVideoUrl (''https://vimeo.com/1'' @ [CHR 0xE2, CHR 0x80, CHR 0xA8])
   \<and> isValidVideoUrl (''https://vimeo.com/1'' @ [CHR 0xE2, CHR 0x80, CHR 0xA7])"
  by (simp add: isValidVideoUrl_def host_regex_test_def)

text \<open>An integer up to \<open>2 ^ 53\<close> in magnitude is a double, so adding 1 to an integer
  below \<open>2 ^ 53\<close> in magnitude is exact.\<close>

lemma fl_2_53: "fl (2 ^ 53) = 2 ^ 53"
  by code_simp

lemma fl_of_int_le:
  assumes "\<bar>k\<bar> \<le> 2 ^ 53"
  shows "fl (of_int k) = of_int k"
proof -
  consider "\<bar>k\<bar> < 2 ^ 53" | "k = 2 ^ 53" | "k = - (2 ^ 53)"
    using assms by linarith
  then show ?thesis
  proof cases
    case 1
    then show ?thesis by (rule fl_of_int)
  next
    case 2
    then show ?thesis using fl_2_53 by simp
  next
    case 3
    then show ?thesis using fl_2_53 fl_minus [of "2 ^ 53"] by simp
  qed
qed

lemma js_add_1:
  assumes "x \<in> \<int>" and "\<bar>x\<bar> < 2 ^ 53"
  shows "js_add x 1 = x + 1"
proof -
  from assms(1) obtain k where k: "x = of_int k" by (rule Ints_cases)
  with assms(2) have "\<bar>(of_int k :: rat)\<bar> < of_int (2 ^ 53)" by simp
  then have "\<bar>k\<bar> < 2 ^ 53" by (simp only: of_int_abs [symmetric] of_int_less_iff)
  then have "\<bar>k + 1\<bar> \<le> 2 ^ 53" by linarith
  then have "fl (of_int (k + 1)) = of_int (k + 1)" by (rule fl_of_int_le)
  then show ?thesis by (simp add: js_add_def k)
qed

text \<open>
  C10. For every course, asked by its educator to add a lecture to a chapter it has:
  when the url does not pass \<open>isValidVideoUrl\<close> the answer is the failure
  \<open>Invalid video URL\<close> and the store is exactly what it was; when it passes, the answer
  is \<open>Lecture added\<close>, the lecture is appended to that chapter (the first with the given
  id) and saved, it keeps the given url, and its order is the sum, as a double, of 1 and
  the greatest order among the lectures the chapter had, 0 when it had none. When the
  orders of the chapter's lectures are integers below \<open>2 ^ 53\<close> in magnitude that sum is
  exact: the order is one more than the greatest order, 1 for the first lecture.
  \<open>https://invalid-host.com/video\<close> does not pass; \<open>https://vimeo.com/123456789\<close> passes.
\<close>

theorem addLecture_video_url:
  assumes "courses st courseId = Some course"
    and "educator course = educatorId"
    and "findIndex (\<lambda>chapter. chapterId chapter = chapId) (courseContent course) = Some i"
  shows "(\<not> isValidVideoUrl (data_lectureUrl lectureData) \<longrightarrow>
            addLecture educatorId courseId chapId lectureData st = (Json_failure ''Invalid video URL'', st))
    \<and> (isValidVideoUrl (data_lectureUrl lectureData) \<longrightarrow>
          (\<exists>newLecture.
             addLecture educatorId courseId chapId lectureData st =
               (Json_lecture ''Lecture added'' newLecture,
                Course_save courseId
                  (course\<lparr>courseContent := (courseContent course)[i :=
                     (courseContent course ! i)\<lparr>chapterContent :=
                        chapterContent (courseContent course ! i) @ [newLecture]\<rparr>]\<rparr>) st)
             \<and> lectureUrl newLecture = data_lectureUrl lectureData
             \<and> lectureOrder newLecture =
                 js_add (if chapterContent (courseContent course ! i) = [] then 0
                         else Max (lectureOrder ` set (chapterContent (courseContent course ! i)))) 1
             \<and> ((\<forall>l \<in> set (chapterContent (courseContent course ! i)).
                    lectureOrder l \<in> \<int> \<and> \<bar>lectureOrder l\<bar> < 2 ^ 53) \<longrightarrow>
                 lectureOrder newLecture =
                   (if chapterContent (courseContent course ! i) = [] then 0
                    else Max (lectureOrder ` set (chapterContent (courseContent course ! i)))) + 1)))
    \<and> \<not> isValidVideoUrl ''https://invalid-host.com/video''
    \<and> isValidVideoUrl ''https://vimeo.com/123456789''"
proof (intro conjI impI)
  assume "\<not> isValidVideoUrl (data_lectureUrl lectureData)"
  with assms show "addLecture educatorId courseId chapId lectureData st = (Json_failure ''Invalid video URL'', st)"
    by (simp add: addLecture_def)
next
  assume valid: "isValidVideoUrl (data_lectureUrl lectureData)"
  then have nonempty: "data_lectureUrl lectureData \<noteq> []"
    using isValidVideoUrl_empty by auto
  define lectures where "lectures = chapterContent (courseContent course ! i)"
  define maxOrder where "maxOrder = (if lectures = [] then 0 else Max (lectureOrder ` set lectures))"
  define newLecture where "newLecture =
    \<lparr>lectureId = data_lectureId lectureData, lectureTitle = data_lectureTitle lectureData,
     lectureDuration = data_lectureDuration lectureData, lectureUrl = data_lectureUrl lectureData,
     isPreviewFree = (case data_isPreviewFree lectureData of Some b \<Rightarrow> b | None \<Rightarrow> False),
     lectureOrder = js_add maxOrder 1\<rparr>"
  have m: "(case map lectureOrder lectures of [] \<Rightarrow> 0 | x # xs \<Rightarrow> foldl max x xs) = maxOrder"
  proof (cases lectures)
    case Nil
    then show ?thesis by (simp add: maxOrder_def)
  next
    case (Cons l ls)
    have "foldl max (lectureOrder l) (map lectureOrder ls)
        = Max (set (lectureOrder l # map lectureOrder ls))"
      by (rule foldl_max_Max)
    with Cons show ?thesis by (simp add: maxOrder_def)
  qed
  have r: "addLecture educatorId courseId chapId lectureData st =
               (Json_lecture ''Lecture added'' newLecture,
                Course_save courseId
                  (course\<lparr>courseContent := (courseContent course)[i :=
                     (courseContent course ! i)\<lparr>chapterContent :=
                        chapterContent (courseContent course ! i) @ [newLecture]\<rparr>]\<rparr>) st)"
    using assms valid nonempty m
    by (simp add: addLecture_def Let_def newLecture_def lectures_def)
  have b: "js_add maxOrder 1 = maxOrder + 1"
    if h: "\<forall>l \<in> set lectures. lectureOrder l \<in> \<int> \<and> \<bar>lectureOrder l\<bar> < 2 ^ 53"
  proof -
    have "maxOrder \<in> \<int> \<and> \<bar>maxOrder\<bar> < 2 ^ 53"
    proof (cases "lectures = []")
      case True
      then show ?thesis by (simp add: maxOrder_def)
    next
      case False
      then have "Max (lectureOrder ` set lectures) \<in> lectureOrder ` set lectures"
        by (intro Max_in) simp_all
      then obtain l where l: "l \<in> set lectures" "Max (lectureOrder ` set lectures) = lectureOrder l"
        by blast
      from h l(1) have "lectureOrder l \<in> \<int> \<and> \<bar>lectureOrder l\<bar> < 2 ^ 53"
        by (rule bspec)
      with False l(2) show ?thesis by (simp only: maxOrder_def if_False)
    qed
    then show ?thesis by (intro js_add_1) simp_all
  qed
  show "\<exists>newLecture.
             addLecture educatorId courseId chapId lectureData st =
               (Json_lecture ''Lecture added'' newLecture,
                Course_save courseId
                  (course\<lparr>courseContent := (courseContent course)[i :=
                     (courseContent course ! i)\<lparr>chapterContent :=
                        chapterContent (courseContent course ! i) @ [newLecture]\<rparr>]\<rparr>) st)
             \<and> lectureUrl newLecture = data_lectureUrl lectureData
             \<and> lectureOrder newLecture =
                 js_add (if chapterContent (courseContent course ! i) = [] then 0
                         else Max (lectureOrder ` set (chapterContent (courseContent course ! i)))) 1
             \<and> ((\<forall>l \<in> set (chapterContent (courseContent course ! i)).
                    lectureOrder l \<in> \<int> \<and> \<bar>lectureOrder l\<bar> < 2 ^ 53) \<longrightarrow>
                 lectureOrder newLecture =
                   (if chapterContent (courseContent course ! i) = [] then 0
                    else Max (lectureOrder ` set (chapterContent (courseContent course ! i)))) + 1)"
  proof (intro exI [of _ newLecture] conjI impI)
    show "addLecture educatorId courseId chapId lectureData st =
               (Json_lecture ''Lecture added'' newLecture,
                Course_save courseId
                  (course\<lparr>courseContent := (courseContent course)[i :=
                     (courseContent course ! i)\<lparr>chapterContent :=
                        chapterContent (courseContent course ! i) @ [newLecture]\<rparr>]\<rparr>) st)"
      by (rule r)
    show "lectureUrl newLecture = data_lectureUrl lectureData"
      by (simp add: newLecture_def)
    show "lectureOrder newLecture =
                 js_add (if chapterContent (courseContent course ! i) = [] then 0
                         else Max (lectureOrder ` set (chapterContent (courseContent course ! i)))) 1"
      by (simp add: newLecture_def maxOrder_def lectures_def)
    assume "\<forall>l \<in> set (chapterContent (courseContent course ! i)).
                    lectureOrder l \<in> \<int> \<and> \<bar>lectureOrder l\<bar> < 2 ^ 53"
    then have "js_add maxOrder 1 = maxOrder + 1"
      by (intro b) (simp add: lectures_def)
    then show "lectureOrder newLecture =
                   (if chapterContent (courseContent course ! i) = [] then 0
                    else Max (lectureOrder ` set (chapterContent (courseContent course ! i)))) + 1"
      by (simp add: newLecture_def maxOrder_def lectures_def)
  qed
next
  show "\<not> isValidVideoUrl ''https://invalid-host.com/video''"
    by (simp add: isValidVideoUrl_def host_regex_test_def)
next
  show "isValidVideoUrl ''https://vimeo.com/123456789''"
    by (simp add: isValidVideoUrl_def host_regex_test_def)
qed

theorem addLecture_video_url_witness:
  "addLecture ''educator_123'' ''course_123'' ''chapter_1'' invalidLectureData mockStore
     = (Json_failure ''Invalid video URL'', mockStore)
   \<and> fst (addLecture ''educator_123'' ''course_123'' ''chapter_1'' vimeoLectureData mockStore)
     = Json_lecture ''Lecture added''
         \<lparr>lectureId = ''lecture_3'', lectureTitle = ''JavaScript Functions'', lectureDuration = 25,
          lectureUrl = ''https://vimeo.com/123456789'', isPreviewFree = True, lectureOrder = 3\<rparr>
   \<and> map_option (\<lambda>c. map (map lectureId \<circ> chapterContent) (courseContent c))
         (courses (snd (addLecture ''educator_123'' ''course_123'' ''chapter_1'' vimeoLectureData mockStore))
            ''course_123'')
     = Some [[''lecture_3'', ''lecture_4''], [''lecture_2'', ''lecture_1'', ''lecture_3'']]"
proof -
  have c: "courses mockStore ''course_123'' = Some mockCourse"
    by (simp add: mockStore_def)
  have e: "educator mockCourse = ''educator_123''"
    by (simp add: mockCourse_def)
  have i: "findIndex (\<lambda>chapter. chapterId chapter = ''chapter_1'') (courseContent mockCourse) = Some 1"
    by (simp add: mockCourse_def)
  have bad: "\<not> isValidVideoUrl (data_lectureUrl invalidLectureData)"
    by (simp add: invalidLectureData_def vimeoLectureData_def isValidVideoUrl_def host_regex_test_def)
  have good: "isValidVideoUrl (data_lectureUrl vimeoLectureData)"
    by (simp add: vimeoLectureData_def isValidVideoUrl_def host_regex_test_def)
  have orders: "\<forall>l \<in> set (chapterContent (courseContent mockCourse ! 1)).
      lectureOrder l \<in> \<int> \<and> \<bar>lectureOrder l\<bar> < 2 ^ 53"
    by (simp add: mockCourse_def)
  have greatest: "(if chapterContent (courseContent mockCourse ! 1) = [] then 0
      else Max (lectureOrder ` set (chapterContent (courseContent mockCourse ! 1)))) + 1 = 3"
    by (simp add: mockCourse_def)
  from addLecture_video_url [OF c e i, of invalidLectureData] bad
  have 1: "addLecture ''educator_123'' ''course_123'' ''chapter_1'' invalidLectureData mockStore
     = (Json_failure ''Invalid video URL'', mockStore)"
    by simp
  from addLecture_video_url [OF c e i, of vimeoLectureData] good orders
  obtain newLecture where n:
    "addLecture ''educator_123'' ''course_123'' ''chapter_1'' vimeoLectureData mockStore =
       (Json_lecture ''Lecture added'' newLecture,
        Course_save ''course_123''
          (mockCourse\<lparr>courseContent := (courseContent mockCourse)[1 :=
             (courseContent mockCourse ! 1)\<lparr>chapterContent :=
                chapterContent (courseContent mockCourse ! 1) @ [newLecture]\<rparr>]\<rparr>) mockStore)"
    and u: "lectureUrl newLecture = data_lectureUrl vimeoLectureData"
    and o: "lectureOrder newLecture =
       (if chapterContent (courseContent mockCourse ! 1) = [] then 0
        else Max (lectureOrder ` set (chapterContent (courseContent mockCourse ! 1)))) + 1"
    by blast
  from o greatest have o3: "lectureOrder newLecture = 3" by simp
  have f: "\<exists>order. fst (addLecture ''educator_123'' ''course_123'' ''chapter_1'' vimeoLectureData mockStore)
     = Json_lecture ''Lecture added''
         \<lparr>lectureId = ''lecture_3'', lectureTitle = ''JavaScript Functions'', lectureDuration = 25,
          lectureUrl = ''https://vimeo.com/123456789'', isPreviewFree = True, lectureOrder = order\<rparr>"
    using good
    by (simp add: addLecture_def c e i Let_def)
      (simp add: vimeoLectureData_def)
  with n o3 have v: "newLecture = \<lparr>lectureId = ''lecture_3'', lectureTitle = ''JavaScript Functions'',
      lectureDuration = 25, lectureUrl = ''https://vimeo.com/123456789'', isPreviewFree = True,
      lectureOrder = 3\<rparr>"
    by auto
  with n have 2: "fst (addLecture ''educator_123'' ''course_123'' ''chapter_1'' vimeoLectureData mockStore)
     = Json_lecture ''Lecture added''
         \<lparr>lectureId = ''lecture_3'', lectureTitle = ''JavaScript Functions'', lectureDuration = 25,
          lectureUrl = ''https://vimeo.com/123456789'', isPreviewFree = True, lectureOrder = 3\<rparr>"
    by simp
  from n v have 3: "map_option (\<lambda>c. map (map lectureId \<circ> chapterContent) (courseContent c))
         (courses (snd (addLecture ''educator_123'' ''course_123'' ''chapter_1'' vimeoLectureData mockStore))
            ''course_123'')
     = Some [[''lecture_3'', ''lecture_4''], [''lecture_2'', ''lecture_1'', ''lecture_3'']]"
    by (simp add: Course_save_def mockCourse_def)
  from 1 2 3 show ?thesis by simp
qed

end
